theory Spec2Isabelle
  imports Main "HOL-Library.Sublist"
begin

section \<open>Text\<close>

text \<open>
  JavaScript strings are modelled as \<^typ>\<open>string\<close>. The model is exact on ASCII text; the
  non-ASCII glyphs of the fixed templates of the source (emoji, arrows, rules, dashes)
  are carried as their UTF-8 byte sequences, named \<open>g_...\<close> below. Outside ASCII the
  operations follow the bytes: \<open>toLowerCase\<close> maps the letters \<open>A\<close> to \<open>Z\<close> only,
  \<open>trim\<close> removes ASCII white space only, and the length of a string counts bytes.
  \<open>String.prototype.includes\<close> is containment of a contiguous substring.
\<close>

definition str_includes :: "string \<Rightarrow> string \<Rightarrow> bool" where
  "str_includes s t = sublist t s"

definition lower_char :: "char \<Rightarrow> char" where
  "lower_char c =
     (case map_of (zip ''ABCDEFGHIJKLMNOPQRSTUVWXYZ'' ''abcdefghijklmnopqrstuvwxyz'') c of
        Some d \<Rightarrow> d
      | None \<Rightarrow> c)"

definition toLowerCase :: "string \<Rightarrow> string" where
  "toLowerCase s = map lower_char s"

definition is_space :: "char \<Rightarrow> bool" where
  "is_space c =
     (c = CHR '' '' \<or> c = CHR 0x09 \<or> c = CHR ''\<newline>'' \<or> c = CHR 0x0B \<or> c = CHR 0x0C
      \<or> c = CHR 0x0D)"

definition trim :: "string \<Rightarrow> string" where
  "trim s = rev (dropWhile is_space (rev (dropWhile is_space s)))"

text \<open>\<open>Array.prototype.join\<close> on a list of strings.\<close>

fun join :: "string \<Rightarrow> string list \<Rightarrow> string" where
  "join sep [] = []"
| "join sep [x] = x"
| "join sep (x # y # ys) = x @ sep @ join sep (y # ys)"

text \<open>Decimal rendering of a number inside a template literal.\<close>

fun dec :: "nat \<Rightarrow> string" where
  "dec n =
     (if n < 10 then [char_of (48 + n)] else dec (n div 10) @ [char_of (48 + n mod 10)])"

declare dec.simps [simp del]

subsection \<open>Glyphs of the templates (UTF-8)\<close>

definition g_alarm_clock :: string where
  "g_alarm_clock = [CHR 0xE2, CHR 0x8F, CHR 0xB0]"

definition g_bar_chart :: string where
  "g_bar_chart = [CHR 0xF0, CHR 0x9F, CHR 0x93, CHR 0x8A]"

definition g_chart_up :: string where
  "g_chart_up = [CHR 0xF0, CHR 0x9F, CHR 0x93, CHR 0x88]"

definition g_check_mark :: string where
  "g_check_mark = [CHR 0xE2, CHR 0x9C, CHR 0x85]"

definition g_clipboard :: string where
  "g_clipboard = [CHR 0xF0, CHR 0x9F, CHR 0x93, CHR 0x8B]"

definition g_combining_enclosing_keycap :: string where
  "g_combining_enclosing_keycap = [CHR 0xE2, CHR 0x83, CHR 0xA3]"

definition g_cross_mark :: string where
  "g_cross_mark = [CHR 0xE2, CHR 0x9D, CHR 0x8C]"

definition g_direct_hit :: string where
  "g_direct_hit = [CHR 0xF0, CHR 0x9F, CHR 0x8E, CHR 0xAF]"

definition g_em_dash :: string where
  "g_em_dash = [CHR 0xE2, CHR 0x80, CHR 0x94]"

definition g_gear :: string where
  "g_gear = [CHR 0xE2, CHR 0x9A, CHR 0x99]"

definition g_globe :: string where
  "g_globe = [CHR 0xF0, CHR 0x9F, CHR 0x8C, CHR 0x90]"

definition g_heavy_rule :: string where
  "g_heavy_rule = [CHR 0xE2, CHR 0x94, CHR 0x81]"

definition g_high_voltage :: string where
  "g_high_voltage = [CHR 0xE2, CHR 0x9A, CHR 0xA1]"

definition g_hourglass :: string where
  "g_hourglass = [CHR 0xE2, CHR 0x8F, CHR 0xB3]"

definition g_light_bulb :: string where
  "g_light_bulb = [CHR 0xF0, CHR 0x9F, CHR 0x92, CHR 0xA1]"

definition g_lobster :: string where
  "g_lobster = [CHR 0xF0, CHR 0x9F, CHR 0xA6, CHR 0x9E]"

definition g_magnifier_left :: string where
  "g_magnifier_left = [CHR 0xF0, CHR 0x9F, CHR 0x94, CHR 0x8D]"

definition g_magnifier_right :: string where
  "g_magnifier_right = [CHR 0xF0, CHR 0x9F, CHR 0x94, CHR 0x8E]"

definition g_next_track :: string where
  "g_next_track = [CHR 0xE2, CHR 0x8F, CHR 0xAD]"

definition g_party_popper :: string where
  "g_party_popper = [CHR 0xF0, CHR 0x9F, CHR 0x8E, CHR 0x89]"

definition g_raised_hand :: string where
  "g_raised_hand = [CHR 0xE2, CHR 0x9C, CHR 0x8B]"

definition g_repeat_arrows :: string where
  "g_repeat_arrows = [CHR 0xF0, CHR 0x9F, CHR 0x94, CHR 0x84]"

definition g_rightwards_arrow :: string where
  "g_rightwards_arrow = [CHR 0xE2, CHR 0x86, CHR 0x92]"

definition g_robot_face :: string where
  "g_robot_face = [CHR 0xF0, CHR 0x9F, CHR 0xA4, CHR 0x96]"

definition g_rocket :: string where
  "g_rocket = [CHR 0xF0, CHR 0x9F, CHR 0x9A, CHR 0x80]"

definition g_speech_balloon :: string where
  "g_speech_balloon = [CHR 0xF0, CHR 0x9F, CHR 0x92, CHR 0xAC]"

definition g_test_tube :: string where
  "g_test_tube = [CHR 0xF0, CHR 0x9F, CHR 0xA7, CHR 0xAA]"

definition g_variation_selector_16 :: string where
  "g_variation_selector_16 = [CHR 0xEF, CHR 0xB8, CHR 0x8F]"

definition g_warning_sign :: string where
  "g_warning_sign = [CHR 0xE2, CHR 0x9A, CHR 0xA0]"

definition g_waving_hand :: string where
  "g_waving_hand = [CHR 0xF0, CHR 0x9F, CHR 0x91, CHR 0x8B]"

definition g_wrench :: string where
  "g_wrench = [CHR 0xF0, CHR 0x9F, CHR 0x94, CHR 0xA7]"

definition g_writing_hand :: string where
  "g_writing_hand = [CHR 0xE2, CHR 0x9C, CHR 0x8D]"

section \<open>Values and errors\<close>

text \<open>
  A function that may throw returns either the thrown error (\<open>Inl\<close>, the error rendered
  as text) or its value (\<open>Inr\<close>).
\<close>

type_synonym 'a result = "string + 'a"

text \<open>
  A JavaScript value as a function without declared parameter types can receive it.
  Numbers are the integers (a fraction is truthy like every non-zero number and \<open>NaN\<close>
  is falsy like \<open>0\<close>); \<open>Obj\<close> stands for any object or array. A value is falsy when
  it is \<open>undefined\<close>, \<open>null\<close>, the empty string, \<open>0\<close> or \<open>false\<close>.
\<close>

datatype js_value = Undefined | Null | Str string | Num int | Bool bool | Obj

fun js_truthy :: "js_value \<Rightarrow> bool" where
  "js_truthy Undefined = False"
| "js_truthy Null = False"
| "js_truthy (Str s) = (s \<noteq> [])"
| "js_truthy (Num n) = (n \<noteq> 0)"
| "js_truthy (Bool b) = b"
| "js_truthy Obj = True"

text \<open>\<open>text || ""\<close> replaces every falsy value by the empty string.\<close>

definition or_empty :: "js_value \<Rightarrow> js_value" where
  "or_empty text = (if js_truthy text then text else Str [])"

text \<open>
  The method call \<open>.toLowerCase()\<close> on a value: only a string has the method, on any
  other value the call throws a \<open>TypeError\<close>.
\<close>

fun call_toLowerCase :: "js_value \<Rightarrow> string result" where
  "call_toLowerCase (Str s) = Inr (toLowerCase s)"
| "call_toLowerCase v = Inl ''TypeError: toLowerCase is not a function''"

section \<open>Execution output generators (\<open>utils/executionOutput.js\<close>)\<close>

text \<open>
  Every generator reads the clock through \<open>new Date().toLocaleString()\<close>; the rendered
  time is the parameter \<open>now\<close>.
\<close>

definition buildTrendingOutput :: "string \<Rightarrow> string" where
  \<open>buildTrendingOutput now = join ''\<newline>''
     [g_check_mark @ '' EXECUTION COMPLETE'',
      concat (replicate 20 g_heavy_rule),
      g_magnifier_left @ '' Step 1: Searched trending topics on OpenClaw'',
      ''   '' @ g_rightwards_arrow @ '' Found: "OpenClaw v2.0 Desktop App Launch"'',
      ''   '' @ g_rightwards_arrow @ '' Engagement score: 87/100'',
      '''',
      g_writing_hand @ g_variation_selector_16 @ '' Step 2: Generated LinkedIn post'',
      ''   '' @ g_rightwards_arrow @ '' Title: "The Future of No-Code Automation is Here ''
        @ g_lobster @ ''"'',
      ''   '' @ g_rightwards_arrow @ '' Length: 247 words'',
      ''   '' @ g_rightwards_arrow @ '' Hashtags: #openclaw #automation #opensource'',
      '''',
      g_globe @ '' Step 3: Browser automation '' @ g_em_dash @ '' Posted to LinkedIn'',
      ''   '' @ g_rightwards_arrow @ '' Status: Published successfully'',
      ''   '' @ g_rightwards_arrow @ '' URL: linkedin.com/posts/openclaw-desktop-launch'',
      ''   '' @ g_rightwards_arrow @ '' Timestamp: '' @ now,
      '''',
      g_repeat_arrows @ '' Next scheduled run: Tomorrow at 9:00 AM'']\<close>

definition buildHashtagOutput :: "string \<Rightarrow> string" where
  \<open>buildHashtagOutput now = join ''\<newline>''
     [g_check_mark @ '' EXECUTION COMPLETE'',
      concat (replicate 20 g_heavy_rule),
      g_magnifier_right @ '' Step 1: Searched LinkedIn for #openclaw posts'',
      ''   '' @ g_rightwards_arrow @ '' Found 3 matching posts'',
      '''',
      g_speech_balloon @ '' Step 2: Commented on posts via browser automation'',
      ''   '' @ g_rightwards_arrow @ '' Post 1: "Check out github.com/openclaw '' @ g_em_dash
        @ '' '' @ g_lobster @ '' automate tasks without CLI!"'',
      ''   '' @ g_rightwards_arrow
        @ '' Post 2: "Try the OpenClaw Desktop App for no-code automation! '' @ g_rocket @ ''"'',
      ''   '' @ g_rightwards_arrow
        @ '' Post 3: "New to automation? OpenClaw Desktop makes it easy '' @ g_direct_hit @ ''"'',
      '''',
      g_bar_chart @ '' Step 3: Results logged'',
      ''   '' @ g_rightwards_arrow @ '' Comments posted: 3'',
      ''   '' @ g_rightwards_arrow @ '' Timestamp: '' @ now,
      '''',
      g_repeat_arrows @ '' Next scheduled run: In 1 hour'']\<close>

definition buildGenericOutput :: "string \<Rightarrow> string \<Rightarrow> string" where
  \<open>buildGenericOutput action now = join ''\<newline>''
     [g_check_mark @ '' EXECUTION COMPLETE'',
      concat (replicate 20 g_heavy_rule),
      g_globe @ '' Browser automation executed successfully'',
      ''   '' @ g_rightwards_arrow @ '' Action: '' @ action,
      ''   '' @ g_rightwards_arrow @ '' Timestamp: '' @ now]\<close>

definition buildSandboxOutput :: "string \<Rightarrow> string \<Rightarrow> string \<Rightarrow> string" where
  \<open>buildSandboxOutput nm gl now = join ''\<newline>''
     [g_test_tube @ '' SANDBOX DRY-RUN'',
      concat (replicate 18 g_heavy_rule),
      ''Agent: '' @ nm,
      ''Goal: '' @ gl,
      '''',
      g_magnifier_left @ '' Simulated Step 1: Analyzed task requirements'',
      g_writing_hand @ g_variation_selector_16
        @ '' Simulated Step 2: Would execute browser actions'',
      g_next_track @ g_variation_selector_16 @ '' Simulated Step 3: Would post/comment'',
      '''',
      g_warning_sign @ g_variation_selector_16 @ '' No real actions taken '' @ g_em_dash
        @ '' sandbox mode active'',
      ''Timestamp: '' @ now]\<close>

text \<open>
  \<open>detectAgentType(text)\<close>: \<open>(text || "").toLowerCase()\<close> throws when the value is
  truthy and not a string; otherwise the first vocabulary found in the lower-cased text
  decides, \<open>trending\<close> before \<open>hashtag\<close>.
\<close>

definition detectAgentType :: "js_value \<Rightarrow> string result" where
  "detectAgentType text =
     (case call_toLowerCase (or_empty text) of
        Inl err \<Rightarrow> Inl err
      | Inr lower \<Rightarrow>
          Inr (if str_includes lower ''trending'' then ''trending''
               else if str_includes lower ''hashtag'' \<or> str_includes lower ''#openclaw''
               then ''hashtag''
               else ''generic''))"

section \<open>Data model\<close>

text \<open>
  An agent configuration as the form, the chat draft and the demo presets build it;
  \<open>tools\<close> is the comma-separated string of the source (\<open>"browser,cron"\<close>). A stored
  agent carries the identifier the store gave it.
\<close>

record agent_config =
  name :: string
  role :: string
  goal :: string
  tools :: string
  schedule :: string
  sandbox :: bool

record agent = agent_config +
  agent_id :: string

record log_entry =
  log_agent_id :: string
  log_action :: string
  log_status :: string
  log_output :: string
  log_error :: string

record approval_item =
  item_id :: nat
  item_agent_id :: "string option"
  action_type :: string
  content_preview :: string
  item_status :: string

section \<open>The world outside the front-end\<close>

text \<open>
  Every call that leaves the front-end is recorded in \<open>events\<close>, in the order in which
  it is issued. What such a call answers is not decided by the front-end: the three
  oracles give, for the call issued as the \<open>n\<close>-th event, whether the IPC command is
  rejected (and with which error), how the spawned process ends, and what the HTTP request
  yields. The rendered clock and the browser's user-agent string are inputs as well.
\<close>

datatype event = Invoke string | Shell string "string list" | Fetch string

datatype exec_result = Exited int string string | Raised string

datatype http_result = NetworkError string | Response bool nat string "string + string"

record world =
  settings :: "string \<Rightarrow> string option"
  agents :: "agent list"
  logs :: "log_entry list"
  approvals :: "approval_item list"
  next_id :: nat
  events :: "event list"
  ipc_fault :: "nat \<Rightarrow> string option"
  exec_outcome :: "nat \<Rightarrow> exec_result"
  http_outcome :: "nat \<Rightarrow> http_result"
  clock :: string
  userAgent :: string

text \<open>
  An asynchronous function returns its result together with the state it leaves behind.
  \<open>andThen\<close> is \<open>await\<close> followed by the rest of the block: an error skips the
  rest.
\<close>

definition andThen :: "'a result \<times> 's \<Rightarrow> ('a \<Rightarrow> 's \<Rightarrow> 'b result \<times> 's) \<Rightarrow> 'b result \<times> 's" where
  "andThen r k = (case r of (Inl e, s) \<Rightarrow> (Inl e, s) | (Inr a, s) \<Rightarrow> k a s)"

section \<open>Service layer (\<open>services/openclaw.js\<close>)\<close>

subsection \<open>Shell execution\<close>

record cmd_result =
  success :: bool
  stdout :: string
  stderr :: string
  code :: int

text \<open>\<open>executeCommand\<close> never throws: a failure to spawn is reported as exit code \<open>-1\<close>.\<close>

definition executeCommand :: "string \<Rightarrow> string list \<Rightarrow> world \<Rightarrow> cmd_result \<times> world" where
  "executeCommand program args w =
     (let w' = w\<lparr>events := events w @ [Shell program args]\<rparr> in
      case exec_outcome w (length (events w)) of
        Exited c out err \<Rightarrow> (\<lparr>success = (c = 0), stdout = out, stderr = err, code = c\<rparr>, w')
      | Raised err \<Rightarrow> (\<lparr>success = False, stdout = [], stderr = err, code = - 1\<rparr>, w'))"

definition checkNodeInstalled :: "world \<Rightarrow> bool \<times> world" where
  "checkNodeInstalled w = (case executeCommand ''node'' [''--version''] w of (r, w') \<Rightarrow> (success r, w'))"

definition installOpenClaw :: "world \<Rightarrow> cmd_result \<times> world" where
  "installOpenClaw w = executeCommand ''npm'' [''install'', ''-g'', ''openclaw@latest''] w"

definition runOpenClawOnboard :: "world \<Rightarrow> cmd_result \<times> world" where
  "runOpenClawOnboard w = executeCommand ''openclaw'' [''onboard'', ''--non-interactive''] w"

text \<open>
  \<open>startGateway\<close> spawns the gateway without waiting for it: whatever becomes of the
  process, the function returns \<open>success: true\<close>.
\<close>

definition startGateway :: "nat \<Rightarrow> world \<Rightarrow> bool \<times> world" where
  "startGateway port w =
     (True, w\<lparr>events := events w @ [Shell ''openclaw'' [''gateway'', ''--port'', dec port]]\<rparr>)"

definition detectOS :: "world \<Rightarrow> string" where
  "detectOS w =
     (let ua = toLowerCase (userAgent w) in
      if str_includes ua ''win'' then ''windows''
      else if str_includes ua ''mac'' then ''macos''
      else if str_includes ua ''linux'' then ''linux''
      else ''unknown'')"

subsection \<open>Database operations\<close>

text \<open>
  \<open>invoke(cmd, args)\<close> sends an IPC command to the backend; the promise is rejected when
  the backend answers with an error.
\<close>

definition invoke :: "string \<Rightarrow> world \<Rightarrow> unit result \<times> world" where
  "invoke cmd w =
     (case ipc_fault w (length (events w)) of None \<Rightarrow> Inr () | Some e \<Rightarrow> Inl e,
      w\<lparr>events := events w @ [Invoke cmd]\<rparr>)"

text \<open>
  Modelled from the spec: the backend commands behind \<open>invoke\<close> (the Rust side of the
  application, absent from the front-end sources). Following the persistence gateway of
  the specification: settings are a key-value store; logs are append-only; a created
  agent and a created approval receive a fresh identifier; an approval is created in
  status \<open>pending\<close>; \<open>update_approval\<close> stores the given status in the item with the
  given identifier; \<open>get_approvals\<close> lists the stored items; \<open>get_logs\<close> lists at most
  \<open>limit\<close> entries, the most recent ones.
\<close>

definition createAgent :: "'a agent_config_scheme \<Rightarrow> world \<Rightarrow> string result \<times> world" where
  "createAgent data w =
     andThen (invoke ''create_agent'' w) (\<lambda>_ w.
       (Inr (dec (next_id w)),
        w\<lparr>agents := agents w @
             [\<lparr>name = name data, role = role data, goal = goal data,
               tools = (if tools data = [] then ''[]'' else tools data),
               schedule = schedule data, sandbox = sandbox data,
               agent_id = dec (next_id w)\<rparr>],
          next_id := Suc (next_id w)\<rparr>))"

definition addLog :: "string \<Rightarrow> string \<Rightarrow> string \<Rightarrow> string \<Rightarrow> string \<Rightarrow> world \<Rightarrow> unit result \<times> world" where
  "addLog agentId action status output err w =
     andThen (invoke ''add_log'' w) (\<lambda>_ w.
       (Inr (),
        w\<lparr>logs := logs w @
             [\<lparr>log_agent_id = agentId, log_action = action, log_status = status,
               log_output = output, log_error = err\<rparr>]\<rparr>))"

definition getLogs :: "nat \<Rightarrow> world \<Rightarrow> log_entry list result \<times> world" where
  "getLogs limit w =
     andThen (invoke ''get_logs'' w) (\<lambda>_ w. (Inr (rev (take limit (rev (logs w)))), w))"

definition deleteSetting :: "string \<Rightarrow> world \<Rightarrow> unit result \<times> world" where
  "deleteSetting key w =
     andThen (invoke ''delete_setting'' w) (\<lambda>_ w. (Inr (), w\<lparr>settings := (settings w)(key := None)\<rparr>))"

definition addApproval :: "string \<Rightarrow> string \<Rightarrow> string \<Rightarrow> world \<Rightarrow> nat result \<times> world" where
  "addApproval agentId actionType contentPreview w =
     andThen (invoke ''add_approval'' w) (\<lambda>_ w.
       (Inr (next_id w),
        w\<lparr>approvals := approvals w @
             [\<lparr>item_id = next_id w, item_agent_id = Some agentId, action_type = actionType,
               content_preview = contentPreview, item_status = ''pending''\<rparr>],
          next_id := Suc (next_id w)\<rparr>))"

definition updateApproval :: "nat \<Rightarrow> string \<Rightarrow> world \<Rightarrow> unit result \<times> world" where
  "updateApproval i status w =
     andThen (invoke ''update_approval'' w) (\<lambda>_ w.
       (Inr (),
        w\<lparr>approvals :=
             map (\<lambda>a. if item_id a = i then a\<lparr>item_status := status\<rparr> else a) (approvals w)\<rparr>))"

definition getApprovals :: "world \<Rightarrow> approval_item list result \<times> world" where
  "getApprovals w = andThen (invoke ''get_approvals'' w) (\<lambda>_ w. (Inr (approvals w), w))"

section \<open>Agent panel: the execution dispatcher (\<open>AgentPanel.handleRun\<close>)\<close>

definition buildAutoExecuteOutput :: "'a agent_config_scheme \<Rightarrow> string \<Rightarrow> string" where
  \<open>buildAutoExecuteOutput a now = join ''\<newline>''
     [g_check_mark @ '' AUTO-EXECUTED'',
      concat (replicate 16 g_heavy_rule),
      ''Agent: '' @ name a,
      ''Role: '' @ role a,
      '''',
      g_magnifier_left @ '' Step 1: Processed task '' @ g_em_dash @ '' '' @ goal a,
      g_high_voltage @ '' Step 2: Executed successfully'',
      g_bar_chart @ '' Step 3: Results logged'',
      '''',
      ''Timestamp: '' @ now]\<close>

text \<open>The prefix of the preview, chosen from the detected type.\<close>

definition type_prefix :: "string \<Rightarrow> string" where
  "type_prefix type =
     (if type = ''trending'' then ''[Trending Agent]''
      else if type = ''hashtag'' then ''[Hashtag Agent]''
      else ''[Agent]'')"

text \<open>
  The body of the \<open>try\<close> block of \<open>handleRun\<close>. In the approval branch the type is
  detected from the agent's name and the preview is
  \<open>`${prefix} ${agent.name}: ${agent.goal}`\<close>.
\<close>

definition handleRun_body :: "agent \<Rightarrow> world \<Rightarrow> unit result \<times> world" where
  \<open>handleRun_body a w =
     (if sandbox a then
        addLog (agent_id a) (''[SANDBOX] Dry-run: '' @ name a) ''success''
          (buildSandboxOutput (name a) (goal a) (clock w)) '''' w
      else if str_includes (tools a) ''browser'' then
        andThen (detectAgentType (Str (name a)), w) (\<lambda>type w.
          let prefix = type_prefix type;
              preview = prefix @ '' '' @ name a @ '': '' @ goal a
          in andThen (addApproval (agent_id a) ''agent_execution'' preview w) (\<lambda>_ w.
               addLog (agent_id a) (''Queued for approval: '' @ name a) ''info''
                 (''Action submitted to approval queue. Go to Logs '' @ g_rightwards_arrow
                    @ '' Approvals tab to review.'') '''' w))
      else
        addLog (agent_id a) (''Executed: '' @ name a) ''success''
          (buildAutoExecuteOutput a (clock w)) '''' w)\<close>

text \<open>
  \<open>handleRun\<close>: an error of the body is turned into an \<open>error\<close> log entry (the
  \<open>catch\<close> block); only a failure of that last write leaves the function as an error.
\<close>

definition handleRun :: "agent \<Rightarrow> world \<Rightarrow> unit result \<times> world" where
  "handleRun a w =
     (case handleRun_body a w of
        (Inr u, w') \<Rightarrow> (Inr u, w')
      | (Inl err, w') \<Rightarrow> addLog (agent_id a) (''Error running: '' @ name a) ''error'' '''' err w')"

section \<open>The conversation engine (\<open>services/llm.js\<close>)\<close>

subsection \<open>Fixed replies of the local backend\<close>

definition SETUP_PREVIEW :: string where
  \<open>SETUP_PREVIEW =
     g_lobster @ '' Let'' @ [CHR 0x27] @ ''s get OpenClaw set up on your system! Here''
     @ [CHR 0x27] @ ''s what I'' @ [CHR 0x27] @ ''ll do:\<newline>\<newline>''
     @ ''1. **Check your system** '' @ g_em_dash
     @ '' Detect OS and verify Node.js is installed\<newline>'' @ ''2. **Install OpenClaw** ''
     @ g_em_dash @ '' Run `npm install -g openclaw@latest` in the background\<newline>''
     @ ''3. **Run onboarding** '' @ g_em_dash
     @ '' Execute `openclaw onboard` to configure everything\<newline>''
     @ ''4. **Start the Gateway** '' @ g_em_dash
     @ '' Launch the OpenClaw gateway service\<newline>\<newline>''
     @ ''Would you like me to start the setup process? Just say **"Yes"** to ''
     @ ''begin!\<newline>\<newline>'' @ g_light_bulb
     @ '' Tip: You can also go to **Settings** to enter an API key for a more powerful ''
     @ ''AI model.''\<close>

definition CREATE_AGENT_PROMPT :: string where
  \<open>CREATE_AGENT_PROMPT =
     g_robot_face @ '' Let'' @ [CHR 0x27] @ ''s create a new agent! I'' @ [CHR 0x27]
     @ ''ll need a few details:\<newline>\<newline>'' @ ''1. **Agent Name** '' @ g_em_dash
     @ '' What should we call this agent?\<newline>'' @ ''2. **Role** '' @ g_em_dash
     @ '' e.g., "Content Creator", "Community Manager", "Monitor"\<newline>'' @ ''3. **Goal** ''
     @ g_em_dash @ '' What should this agent accomplish?\<newline>'' @ ''4. **Tools** ''
     @ g_em_dash @ '' Which tools does it need? (browser, cron, etc.)\<newline>''
     @ ''5. **Schedule** '' @ g_em_dash
     @ '' How often should it run? (e.g., "daily at 9am", "every hour")\<newline>''
     @ ''6. **Sandbox Mode** '' @ g_em_dash
     @ '' Should we test in dry-run mode first?\<newline>\<newline>''
     @ ''You can provide these details here in chat, or head over to the **Agents** tab ''
     @ ''to use the visual form!''\<close>

definition TRENDING_PREVIEW :: string where
  \<open>TRENDING_PREVIEW =
     g_chart_up @ '' Great idea! I'' @ [CHR 0x27]
     @ ''ll help you create a **Trending Topics Agent**. Here'' @ [CHR 0x27]
     @ ''s the plan:\<newline>\<newline>'' @ ''**Agent: Trending OpenClaw Topics ''
     @ g_rightwards_arrow @ '' LinkedIn Post**\<newline>'' @ ''- '' @ g_magnifier_left
     @ '' Search for trending OpenClaw topics\<newline>'' @ ''- '' @ g_writing_hand
     @ g_variation_selector_16 @ '' Write a compelling LinkedIn post\<newline>'' @ ''- ''
     @ g_raised_hand @ '' Wait for your approval in the app\<newline>'' @ ''- '' @ g_globe
     @ '' Post via browser automation\<newline>'' @ ''- '' @ g_repeat_arrows
     @ '' Runs daily at 9:00 AM\<newline>\<newline>'' @ ''**Config Preview:**\<newline>''
     @ ''```json\<newline>'' @ ''{\<newline>'' @ ''  "name": "Trending Topics Agent",\<newline>''
     @ ''  "role": "Content Creator",\<newline>''
     @ ''  "goal": "Search trending OpenClaw topics, write LinkedIn post",\<newline>''
     @ ''  "tools": ["browser", "cron"],\<newline>'' @ ''  "schedule": "0 9 * * *",\<newline>''
     @ ''  "requireApproval": true\<newline>'' @ ''}\<newline>'' @ ''```\<newline>\<newline>''
     @ ''Would you like me to create this agent? Say **"Yes, create it"** to deploy!''\<close>

definition HASHTAG_PREVIEW :: string where
  \<open>HASHTAG_PREVIEW =
     ''#'' @ g_variation_selector_16 @ g_combining_enclosing_keycap @ '' I'' @ [CHR 0x27]
     @ ''ll set up a **Hashtag Comment Agent** for you!\<newline>\<newline>''
     @ ''**Agent: #openclaw Promoter**\<newline>'' @ ''- '' @ g_magnifier_right
     @ '' Search LinkedIn for posts with #openclaw\<newline>'' @ ''- '' @ g_speech_balloon
     @ '' Comment promoting your GitHub repo & desktop app\<newline>'' @ ''- '' @ g_repeat_arrows
     @ '' Runs every hour automatically\<newline>'' @ ''- '' @ g_bar_chart
     @ '' Logs all executions\<newline>\<newline>'' @ ''**Config Preview:**\<newline>''
     @ ''```json\<newline>'' @ ''{\<newline>'' @ ''  "name": "Hashtag Promoter",\<newline>''
     @ ''  "role": "Community Promoter",\<newline>''
     @ ''  "goal": "Search #openclaw, comment & promote desktop app",\<newline>''
     @ ''  "tools": ["browser", "cron"],\<newline>'' @ ''  "schedule": "0 */1 * * *",\<newline>''
     @ ''  "requireApproval": false\<newline>'' @ ''}\<newline>'' @ ''```\<newline>\<newline>''
     @ ''Shall I create this agent? Say **"Yes, create it"** to deploy! You can enable ''
     @ ''sandbox mode later.''\<close>

definition SCHEDULE_HELP :: string where
  \<open>SCHEDULE_HELP =
     g_alarm_clock
     @ '' I can help you manage schedules! Here are your options:\<newline>\<newline>''
     @ ''- **View Schedules** '' @ g_em_dash
     @ '' Go to the Schedules tab to see all active jobs\<newline>'' @ ''- **Create Schedule** ''
     @ g_em_dash @ '' Tell me what you want to run and when\<newline>''
     @ ''- **Cron Expressions** '' @ g_em_dash
     @ '' I can translate plain English to cron:\<newline>'' @ ''  - "Every day at 9am" ''
     @ g_rightwards_arrow @ '' `0 9 * * *`\<newline>'' @ ''  - "Every hour" ''
     @ g_rightwards_arrow @ '' `0 */1 * * *`\<newline>'' @ ''  - "Every Monday at 8am" ''
     @ g_rightwards_arrow @ '' `0 8 * * 1`\<newline>'' @ ''  - "Every 30 minutes" ''
     @ g_rightwards_arrow @ '' `*/30 * * * *`\<newline>\<newline>''
     @ ''What would you like to schedule?''\<close>

definition SANDBOX_HELP :: string where
  \<open>SANDBOX_HELP =
     g_test_tube @ '' **Sandbox Mode** keeps you safe!\<newline>\<newline>''
     @ ''When sandbox mode is enabled for an agent:\<newline>'' @ ''- '' @ g_check_mark
     @ '' All actions are simulated (no real posting/commenting)\<newline>'' @ ''- ''
     @ g_check_mark @ '' Browser automation runs but doesn'' @ [CHR 0x27]
     @ ''t submit forms\<newline>'' @ ''- '' @ g_check_mark
     @ '' Full logs are generated for review\<newline>'' @ ''- '' @ g_check_mark
     @ '' You can verify everything works before going live\<newline>\<newline>''
     @ ''To enable sandbox mode:\<newline>'' @ ''1. Go to **Agents** tab\<newline>''
     @ ''2. Toggle **Sandbox Mode** on for any agent\<newline>''
     @ ''3. Run the agent to test\<newline>\<newline>'' @ ''Or tell me which agent you''
     @ [CHR 0x27] @ ''d like to put in sandbox mode!''\<close>

definition HELP_TEXT :: string where
  \<open>HELP_TEXT =
     g_lobster @ '' Hi! I'' @ [CHR 0x27] @ ''m your **OpenClaw Desktop Assistant**. Here''
     @ [CHR 0x27] @ ''s what I can help with:\<newline>\<newline>'' @ g_wrench
     @ '' **Setup & Config**\<newline>'' @ ''- "Setup OpenClaw" '' @ g_em_dash
     @ '' Install and configure everything\<newline>'' @ ''- "Check status" '' @ g_em_dash
     @ '' View system and gateway status\<newline>\<newline>'' @ g_robot_face
     @ '' **Agent Management**\<newline>'' @ ''- "Create an agent" '' @ g_em_dash
     @ '' Build a new automation agent\<newline>'' @ ''- "Create trending agent" '' @ g_em_dash
     @ '' Set up LinkedIn trending topics agent\<newline>'' @ ''- "Create hashtag agent" ''
     @ g_em_dash @ '' Set up #openclaw comment agent\<newline>\<newline>'' @ g_alarm_clock
     @ '' **Scheduling**\<newline>'' @ ''- "Schedule a task" '' @ g_em_dash
     @ '' Set up cron jobs\<newline>'' @ ''- "Show schedules" '' @ g_em_dash
     @ '' View active schedules\<newline>\<newline>'' @ g_test_tube @ '' **Safety**\<newline>''
     @ ''- "Enable sandbox mode" '' @ g_em_dash @ '' Test agents safely\<newline>''
     @ ''- "Show approval queue" '' @ g_em_dash @ '' Review pending actions\<newline>\<newline>''
     @ g_gear @ g_variation_selector_16 @ '' **Settings**\<newline>'' @ ''- "Switch to OpenAI" ''
     @ g_em_dash @ '' Configure your API key\<newline>'' @ ''- "Use local model" '' @ g_em_dash
     @ '' Switch back to Phi-3\<newline>\<newline>'' @ ''Just type naturally and I'' @ [CHR 0x27]
     @ ''ll guide you through everything!''\<close>

definition STATUS_TABLE :: string where
  \<open>STATUS_TABLE =
     g_bar_chart @ '' **System Status Check**\<newline>\<newline>''
     @ ''| Component | Status |\<newline>'' @ ''|-----------|--------|\<newline>''
     @ ''| Desktop App | '' @ g_check_mark @ '' Running |\<newline>''
     @ ''| OpenClaw CLI | Checking... |\<newline>'' @ ''| Gateway | Checking... |\<newline>''
     @ ''| Local LLM | '' @ g_check_mark @ '' Active (Phi-3) |\<newline>'' @ ''| Database | ''
     @ g_check_mark @ '' Connected |\<newline>\<newline>'' @ g_light_bulb
     @ '' Head to **Settings** to configure your LLM API key for enhanced responses.''\<close>

definition GREETING :: string where
  \<open>GREETING =
     g_waving_hand @ '' Hello! I'' @ [CHR 0x27] @ ''m your **OpenClaw Desktop Assistant** ''
     @ g_lobster @ ''\<newline>\<newline>'' @ ''I'' @ [CHR 0x27]
     @ ''m here to help you automate tasks without touching the command line. Here are ''
     @ ''some things you can try:\<newline>\<newline>'' @ ''- **"Setup OpenClaw"** '' @ g_em_dash
     @ '' Get everything installed\<newline>'' @ ''- **"Create an agent"** '' @ g_em_dash
     @ '' Build your first automation\<newline>'' @ ''- **"Help"** '' @ g_em_dash
     @ '' See all my capabilities\<newline>\<newline>'' @ ''What would you like to do today?''\<close>

definition agent_created_reply :: "agent_config \<Rightarrow> string" where
  \<open>agent_created_reply agent =
     g_check_mark @ '' **Agent Created Successfully!**\<newline>\<newline>'' @ g_robot_face
     @ '' **'' @ name agent @ ''** is now ready.\<newline>'' @ ''- Role: '' @ role agent
     @ ''\<newline>'' @ ''- Schedule: `'' @ schedule agent @ ''`\<newline>'' @ ''- Sandbox: ''
     @ (if sandbox agent then ''Enabled '' @ g_test_tube else ''Disabled'')
     @ ''\<newline>\<newline>''
     @ ''You can view and manage it in the **Agents** tab. Head over there to run it, or ''
     @ ''tell me if you'' @ [CHR 0x27] @ ''d like to make any changes!''\<close>

definition agent_failed_reply :: "string \<Rightarrow> string" where
  \<open>agent_failed_reply e =
     g_cross_mark @ '' Failed to create agent: '' @ e
     @ ''. Please try again or use the Agents tab directly.''\<close>

definition general_reply :: "string \<Rightarrow> string" where
  \<open>general_reply message =
     g_lobster @ '' I understand you want to: "'' @ message
     @ ''"\<newline>\<newline>'' @ ''Let me help with that! Here'' @ [CHR 0x27]
     @ ''s what I can do:\<newline>''
     @ ''- If you need **automation**, I can create an agent for that\<newline>''
     @ ''- If you need **scheduling**, I can set up a cron job\<newline>''
     @ ''- If you need **browser actions**, I can configure browser ''
     @ ''automation\<newline>\<newline>'' @ ''Could you tell me more about what you''
     @ [CHR 0x27] @ ''d like to accomplish? I'' @ [CHR 0x27]
     @ ''ll break it down into simple steps.\<newline>\<newline>'' @ g_light_bulb
     @ '' **Quick tip:** You can also use the tabs on the left to directly manage ''
     @ ''Agents, Schedules, and Logs.''\<close>

text \<open>The two drafts the local backend proposes.\<close>

definition trending_draft :: agent_config where
  "trending_draft =
     \<lparr>name = ''Trending Topics Agent'', role = ''Content Creator'',
      goal = ''Search trending OpenClaw topics, write LinkedIn post, wait for approval, post via browser automation'',
      tools = ''browser,cron'', schedule = ''0 9 * * *'', sandbox = False\<rparr>"

definition hashtag_draft :: agent_config where
  "hashtag_draft =
     \<lparr>name = ''Hashtag Promoter Agent'', role = ''Community Promoter'',
      goal = ''Search LinkedIn for #openclaw posts, comment promoting GitHub repo and desktop app'',
      tools = ''browser,cron'', schedule = ''0 */1 * * *'', sandbox = False\<rparr>"

subsection \<open>\<open>JSON.stringify\<close> of a draft\<close>

definition json_escape :: "char \<Rightarrow> string" where
  "json_escape c =
     (if c = CHR 0x22 then [CHR 0x5C, CHR 0x22]
      else if c = CHR 0x5C then [CHR 0x5C, CHR 0x5C]
      else if c = CHR 0x08 then [CHR 0x5C, CHR ''b'']
      else if c = CHR 0x0C then [CHR 0x5C, CHR ''f'']
      else if c = CHR ''\<newline>'' then [CHR 0x5C, CHR ''n'']
      else if c = CHR 0x0D then [CHR 0x5C, CHR ''r'']
      else if c = CHR 0x09 then [CHR 0x5C, CHR ''t'']
      else if (of_char c :: nat) < 32 then
        [CHR 0x5C, CHR ''u'', CHR ''0'', CHR ''0'',
         ''0123456789abcdef'' ! ((of_char c :: nat) div 16),
         ''0123456789abcdef'' ! ((of_char c :: nat) mod 16)]
      else [c])"

definition json_string :: "string \<Rightarrow> string" where
  "json_string s = [CHR 0x22] @ concat (map json_escape s) @ [CHR 0x22]"

definition stringify_agent :: "agent_config \<Rightarrow> string" where
  \<open>stringify_agent a =
     ''{"name":'' @ json_string (name a) @ '',"role":'' @ json_string (role a)
     @ '',"goal":'' @ json_string (goal a) @ '',"tools":'' @ json_string (tools a)
     @ '',"schedule":'' @ json_string (schedule a)
     @ '',"sandbox":'' @ (if sandbox a then ''true'' else ''false'') @ ''}''\<close>

subsection \<open>Engine state\<close>

record message =
  msg_role :: string
  content :: string

text \<open>
  The fields of \<open>LLMService\<close> that its methods read or write: \<open>apiKey\<close> and \<open>model\<close>
  are \<open>null\<close> when absent; \<open>pendingSetup\<close> and \<open>lastSuggestedAgent\<close> are the fields
  \<open>_pendingSetup\<close> and \<open>_lastSuggestedAgent\<close>.
\<close>

record engine =
  mode :: string
  apiKey :: "string option"
  model :: "string option"
  conversationHistory :: "message list"
  pendingSetup :: bool
  lastSuggestedAgent :: "agent_config option"

definition getMode :: "engine \<Rightarrow> string" where
  "getMode e = mode e"

text \<open>A key is truthy when it is present and not the empty string.\<close>

definition truthy :: "string option \<Rightarrow> bool" where
  "truthy k = (case k of None \<Rightarrow> False | Some s \<Rightarrow> s \<noteq> [])"

text \<open>
  \<open>switchToLocal\<close>: the three assignments, the three deletions inside one \<open>try\<close> whose
  \<open>catch\<close> is empty (a rejected deletion skips the remaining ones and is dropped), then
  the log write, which is outside the \<open>try\<close>.
\<close>

definition switchToLocal :: "engine \<times> world \<Rightarrow> unit result \<times> engine \<times> world" where
  "switchToLocal s =
     (case s of (e, w) \<Rightarrow>
        let e' = e\<lparr>mode := ''local'', apiKey := None, model := Some ''phi-3-mini''\<rparr>;
            w' = snd (andThen (deleteSetting ''llm_provider'' w) (\<lambda>_ w.
                      andThen (deleteSetting ''llm_api_key'' w) (\<lambda>_ w.
                        deleteSetting ''llm_model'' w)))
        in case addLog ''system'' ''LLM switched to local (Phi-3)'' ''success'' '''' '''' w' of
             (r, w'') \<Rightarrow> (r, e', w''))"

subsection \<open>Remote backends\<close>

text \<open>
  A remote call issues one HTTP request. It throws when the request fails, when the
  response is not \<open>ok\<close> (the error carries the status and the body), and when the content
  cannot be read from the decoded body (the last component of a response is then \<open>Inl\<close>).
  The request body (model, system prompt, the last 20 messages) does not influence the
  engine and is not recorded.
\<close>

definition callOpenAI :: "string \<Rightarrow> engine \<times> world \<Rightarrow> string result \<times> engine \<times> world" where
  "callOpenAI message s =
     (case s of (e, w) \<Rightarrow>
        let w' = w\<lparr>events := events w @ [Fetch ''https://api.openai.com/v1/chat/completions'']\<rparr> in
        case http_outcome w (length (events w)) of
          NetworkError err \<Rightarrow> (Inl err, e, w')
        | Response ok status body data \<Rightarrow>
            if \<not> ok then (Inl (''OpenAI API error: '' @ dec status @ '' '' @ body), e, w')
            else (data, e, w'))"

definition callAnthropic :: "string \<Rightarrow> engine \<times> world \<Rightarrow> string result \<times> engine \<times> world" where
  "callAnthropic message s =
     (case s of (e, w) \<Rightarrow>
        let w' = w\<lparr>events := events w @ [Fetch ''https://api.anthropic.com/v1/messages'']\<rparr> in
        case http_outcome w (length (events w)) of
          NetworkError err \<Rightarrow> (Inl err, e, w')
        | Response ok status body data \<Rightarrow>
            if \<not> ok then (Inl (''Anthropic API error: '' @ dec status @ '' '' @ body), e, w')
            else (data, e, w'))"

subsection \<open>The setup sequence (\<open>_executeSetup\<close>)\<close>

text \<open>
  The report is built fragment by fragment; the fragments below are the texts appended
  at each step. The fragment of step 2 is chosen by the result of the installation, and
  both choices are the same text. The pauses between the steps are not modelled.
\<close>

definition report_start :: string where
  \<open>report_start = g_rocket @ '' **Starting Setup...**\<newline>\<newline>''\<close>

definition report_step1 :: "string \<Rightarrow> bool \<Rightarrow> string" where
  \<open>report_step1 os nodeDetected =
     ''**Step 1: System Check** '' @ g_check_mark @ ''\<newline>''
     @ ''- Operating System: '' @ os @ ''\<newline>''
     @ ''- Node.js: ''
     @ (if nodeDetected then g_check_mark @ '' v20.11.0 Detected''
        else g_check_mark @ '' v20.11.0 (bundled)'') @ ''\<newline>''
     @ ''- npm: '' @ g_check_mark @ '' v10.2.4\<newline>\<newline>''\<close>

definition step2_head :: string where
  \<open>step2_head =
     ''**Step 2: Installing OpenClaw** '' @ g_hourglass @ ''\<newline>''
     @ ''Running `npm install -g openclaw@latest`...\<newline>''\<close>

definition installed_line :: string where
  \<open>installed_line = g_check_mark @ '' OpenClaw v2.1.0 installed successfully!\<newline>\<newline>''\<close>

definition report_step2 :: "cmd_result \<Rightarrow> string" where
  "report_step2 installResult =
     step2_head @ (if success installResult then installed_line else installed_line)"

definition report_step3 :: string where
  \<open>report_step3 =
     ''**Step 3: Running Onboarding** '' @ g_hourglass @ ''\<newline>''
     @ ''Executing `openclaw onboard --non-interactive`...\<newline>''
     @ g_check_mark @ '' Configuration files created\<newline>''
     @ g_check_mark @ '' Default workspace initialized\<newline>''
     @ g_check_mark @ '' Browser automation driver verified\<newline>\<newline>''\<close>

definition report_step4 :: string where
  \<open>report_step4 =
     ''**Step 4: Starting Gateway** '' @ g_hourglass @ ''\<newline>''
     @ ''Launching OpenClaw gateway on port 18789...\<newline>''
     @ g_check_mark @ '' Gateway started on port 18789\<newline>''
     @ g_check_mark @ '' Heartbeat monitor active (60s interval)\<newline>\<newline>''\<close>

definition report_summary :: string where
  \<open>report_summary =
     g_party_popper @ '' **Setup Complete!** OpenClaw is installed and ready.\<newline>\<newline>''
     @ g_clipboard @ '' **Next steps:**\<newline>''
     @ ''- Go to **Agents** tab to create your first agent\<newline>''
     @ ''- Or type **"Create a trending agent"** right here in chat\<newline>''
     @ ''- Check **Settings** '' @ g_rightwards_arrow @ '' Run Doctor to verify installation''\<close>

definition executeSetup :: "world \<Rightarrow> string result \<times> world" where
  \<open>executeSetup w0 =
     (let os = detectOS w0 in
      case checkNodeInstalled w0 of (nodeDetected, w) \<Rightarrow>
      andThen (addLog ''system'' (''Setup '' @ g_em_dash @ '' system check passed'') ''success''
                 (''OS: '' @ os @ ''\<newline>Node.js: detected\<newline>npm: detected'') '''' w) (\<lambda>_ w.
      case installOpenClaw w of (installResult, w) \<Rightarrow>
      andThen (addLog ''system'' ''OpenClaw v2.1.0 installed'' ''success''
                 (''added 147 packages in 8.2s\<newline>\<newline>''
                    @ ''+ openclaw@2.1.0\<newline>installed globally'') '''' w) (\<lambda>_ w.
      case runOpenClawOnboard w of (onboardResult, w) \<Rightarrow>
      andThen (addLog ''system'' ''OpenClaw onboarding complete'' ''success''
                 (''Config: ~/.openclaw/config.yml\<newline>Workspace: ~/openclaw-workspace\<newline>''
                    @ ''Browser driver: chromium (auto-detected)'') '''' w) (\<lambda>_ w.
      case startGateway 18789 w of (gatewayResult, w) \<Rightarrow>
      andThen (addLog ''system'' ''Gateway started (port 18789)'' ''success''
                 (''PID: 12847\<newline>Heartbeat: 60s\<newline>'' @ ''Status: RUNNING'') '''' w) (\<lambda>_ w.
      andThen (addLog ''system'' ''Setup completed successfully'' ''success'' '''' '''' w) (\<lambda>_ w.
        (Inr (report_start @ report_step1 os nodeDetected @ report_step2 installResult
                @ report_step3 @ report_step4 @ report_summary), w)))))))\<close>

subsection \<open>The local backend (\<open>_localInference\<close>)\<close>

text \<open>
  The conditions of the rules, in the order of the source; each is tested on the
  lower-cased, trimmed message.
\<close>

definition says_affirm :: "string \<Rightarrow> bool" where
  "says_affirm msg =
     (str_includes msg ''yes'' \<or> str_includes msg ''sure'' \<or> str_includes msg ''ok''
      \<or> str_includes msg ''go ahead'' \<or> str_includes msg ''start''
      \<or> str_includes msg ''set it up'')"

definition says_setup :: "string \<Rightarrow> bool" where
  "says_setup msg =
     (str_includes msg ''setup'' \<or> str_includes msg ''install'' \<or> str_includes msg ''get started'')"

definition says_confirm :: "string \<Rightarrow> bool" where
  "says_confirm msg =
     (str_includes msg ''yes'' \<or> str_includes msg ''create'' \<or> str_includes msg ''confirm''
      \<or> str_includes msg ''deploy'' \<or> str_includes msg ''do it'')"

definition asks_create :: "string \<Rightarrow> bool" where
  "asks_create msg =
     (str_includes msg ''create''
      \<and> (str_includes msg ''agent'' \<or> str_includes msg ''automation''))"

definition asks_trending :: "string \<Rightarrow> bool" where
  "asks_trending msg =
     (str_includes msg ''trending'' \<or> str_includes msg ''linkedin post''
      \<or> str_includes msg ''trend'')"

definition asks_hashtag :: "string \<Rightarrow> bool" where
  "asks_hashtag msg =
     (str_includes msg ''hashtag'' \<or> str_includes msg ''#openclaw''
      \<or> str_includes msg ''comment'')"

definition asks_schedule :: "string \<Rightarrow> bool" where
  "asks_schedule msg =
     (str_includes msg ''schedule'' \<or> str_includes msg ''cron'' \<or> str_includes msg ''timer'')"

definition asks_sandbox :: "string \<Rightarrow> bool" where
  "asks_sandbox msg =
     (str_includes msg ''sandbox'' \<or> str_includes msg ''dry run''
      \<or> str_includes msg ''test mode'')"

definition asks_help :: "string \<Rightarrow> bool" where
  "asks_help msg =
     (str_includes msg ''help'' \<or> str_includes msg ''what can you do''
      \<or> str_includes msg ''commands'')"

definition asks_status :: "string \<Rightarrow> bool" where
  "asks_status msg =
     (str_includes msg ''status'' \<or> str_includes msg ''health'' \<or> str_includes msg ''check'')"

definition is_greeting :: "string \<Rightarrow> bool" where
  "is_greeting msg =
     (str_includes msg ''hello'' \<or> str_includes msg ''hi '' \<or> msg = ''hi''
      \<or> (length msg < 5 \<and> \<not> str_includes msg ''yes'' \<and> \<not> str_includes msg ''ok''))"

text \<open>
  The \<open>try\<close> block of the confirmation rule: create the agent, log the creation, and
  for a draft whose tools contain \<open>browser\<close> queue an approval for the creation.
\<close>

definition confirm_draft :: "agent_config \<Rightarrow> world \<Rightarrow> unit result \<times> world" where
  \<open>confirm_draft agent w =
     andThen (createAgent agent w) (\<lambda>_ w.
     andThen (addLog ''system'' (''Agent created via chat: '' @ name agent) ''success''
                (stringify_agent agent) '''' w) (\<lambda>_ w.
       if str_includes (tools agent) ''browser'' then
         andThen (addApproval ''system'' ''agent_creation''
                    (''Created: '' @ name agent @ '' '' @ g_em_dash @ '' '' @ goal agent) w)
           (\<lambda>_ w. (Inr (), w))
       else (Inr (), w)))\<close>

definition localInference :: "string \<Rightarrow> engine \<times> world \<Rightarrow> string result \<times> engine \<times> world" where
  \<open>localInference message s =
     (case s of (e, w) \<Rightarrow>
        let msg = trim (toLowerCase message) in
        if pendingSetup e \<and> says_affirm msg then
          (case executeSetup w of (r, w') \<Rightarrow> (r, e\<lparr>pendingSetup := False\<rparr>, w'))
        else if says_setup msg then
          (Inr SETUP_PREVIEW, e\<lparr>pendingSetup := True\<rparr>, w)
        else if says_confirm msg \<and> lastSuggestedAgent e \<noteq> None then
          (let agent = the (lastSuggestedAgent e) in
           case confirm_draft agent w of
             (Inr u, w') \<Rightarrow>
               (Inr (agent_created_reply agent), e\<lparr>lastSuggestedAgent := None\<rparr>, w')
           | (Inl err, w') \<Rightarrow> (Inr (agent_failed_reply err), e, w'))
        else if asks_create msg then (Inr CREATE_AGENT_PROMPT, e, w)
        else if asks_trending msg then
          (Inr TRENDING_PREVIEW, e\<lparr>lastSuggestedAgent := Some trending_draft\<rparr>, w)
        else if asks_hashtag msg then
          (Inr HASHTAG_PREVIEW, e\<lparr>lastSuggestedAgent := Some hashtag_draft\<rparr>, w)
        else if asks_schedule msg then (Inr SCHEDULE_HELP, e, w)
        else if asks_sandbox msg then (Inr SANDBOX_HELP, e, w)
        else if asks_help msg then (Inr HELP_TEXT, e, w)
        else if asks_status msg then (Inr STATUS_TABLE, e, w)
        else if is_greeting msg then (Inr GREETING, e, w)
        else (Inr (general_reply message), e, w))\<close>

subsection \<open>\<open>sendMessage\<close>\<close>

definition push_message :: "string \<Rightarrow> string \<Rightarrow> engine \<Rightarrow> engine" where
  "push_message r c e =
     e\<lparr>conversationHistory := conversationHistory e @ [\<lparr>msg_role = r, content = c\<rparr>]\<rparr>"

text \<open>
  The backend chosen inside the \<open>try\<close> block, and \<open>sendMessage\<close> itself: the reply of
  the chosen backend is pushed and returned; when the chosen backend throws, the
  \<open>catch\<close> block runs the local backend, whose reply is pushed and returned, and whose
  error, if it throws, leaves \<open>sendMessage\<close>.
\<close>

definition backend :: "string \<Rightarrow> engine \<times> world \<Rightarrow> string result \<times> engine \<times> world" where
  "backend userMessage s =
     (case s of (e, w) \<Rightarrow>
        if mode e = ''openai'' \<and> truthy (apiKey e) then callOpenAI userMessage (e, w)
        else if mode e = ''anthropic'' \<and> truthy (apiKey e) then callAnthropic userMessage (e, w)
        else localInference userMessage (e, w))"

definition sendMessage :: "string \<Rightarrow> engine \<times> world \<Rightarrow> string result \<times> engine \<times> world" where
  "sendMessage userMessage s =
     (case s of (e, w) \<Rightarrow>
        case backend userMessage (push_message ''user'' userMessage e, w) of
          (Inr response, e', w') \<Rightarrow> (Inr response, push_message ''assistant'' response e', w')
        | (Inl error, e', w') \<Rightarrow>
            (case localInference userMessage (e', w') of
               (Inr fallback, e'', w'') \<Rightarrow>
                 (Inr fallback, push_message ''assistant'' fallback e'', w'')
             | (Inl err, e'', w'') \<Rightarrow> (Inl err, e'', w'')))"


subsection \<open>Runs of the engine\<close>

text \<open>
  A sequence of \<open>sendMessage\<close> calls, one after the other, whatever each of them
  returns; and the HTTP requests among the recorded events.
\<close>

fun sendAll :: "string list \<Rightarrow> engine \<times> world \<Rightarrow> engine \<times> world" where
  "sendAll [] s = s"
| "sendAll (m # ms) s = sendAll ms (snd (sendMessage m s))"

fun is_fetch :: "event \<Rightarrow> bool" where
  "is_fetch (Fetch url) = True"
| "is_fetch (Invoke cmd) = False"
| "is_fetch (Shell program args) = False"

definition fetches :: "world \<Rightarrow> event list" where
  "fetches w = filter is_fetch (events w)"

text \<open>The processes started, among the recorded events.\<close>

fun is_shell :: "event \<Rightarrow> bool" where
  "is_shell (Shell program args) = True"
| "is_shell (Invoke cmd) = False"
| "is_shell (Fetch url) = False"

definition shell_calls :: "world \<Rightarrow> event list" where
  "shell_calls w = filter is_shell (events w)"

section \<open>Logs panel: the approval workflow (\<open>LogsPanel\<close>)\<close>

text \<open>
  The state of the panel that the workflow reads: the logs and the approvals as they
  were last loaded.
\<close>

record panel =
  p_logs :: "log_entry list"
  p_approvals :: "approval_item list"

text \<open>
  \<open>loadData\<close> issues both reads at once (\<open>Promise.all\<close>) and replaces the panel's
  lists when both succeed; a rejected read is logged to the console and leaves the panel
  as it was.
\<close>

definition loadData :: "panel \<times> world \<Rightarrow> panel \<times> world" where
  "loadData s =
     (case s of (p, w) \<Rightarrow>
        case getLogs 200 w of (logData, w1) \<Rightarrow>
        case getApprovals w1 of (approvalData, w2) \<Rightarrow>
          (case (logData, approvalData) of
             (Inr ls, Inr as) \<Rightarrow> (p\<lparr>p_logs := ls, p_approvals := as\<rparr>, w2)
           | _ \<Rightarrow> (p, w2)))"

text \<open>
  The item looked up in the panel's list, and the two constants read from it:
  \<open>item?.content_preview || ""\<close> and \<open>item?.agent_id || "system"\<close>.
\<close>

definition resolved_item :: "panel \<Rightarrow> nat \<Rightarrow> approval_item option" where
  "resolved_item p i = find (\<lambda>a. item_id a = i) (p_approvals p)"

definition resolved_preview :: "panel \<Rightarrow> nat \<Rightarrow> string" where
  "resolved_preview p i =
     (case resolved_item p i of None \<Rightarrow> [] | Some item \<Rightarrow> content_preview item)"

definition resolved_agent :: "panel \<Rightarrow> nat \<Rightarrow> string" where
  "resolved_agent p i =
     (case resolved_item p i of
        None \<Rightarrow> ''system''
      | Some item \<Rightarrow>
          (case item_agent_id item of
             None \<Rightarrow> ''system''
           | Some a \<Rightarrow> if a = [] then ''system'' else a))"

text \<open>The report written on approval, chosen by the type detected from the preview.\<close>

definition approved_output :: "string \<Rightarrow> string \<Rightarrow> string \<Rightarrow> string" where
  "approved_output type preview now =
     (if type = ''trending'' then buildTrendingOutput now
      else if type = ''hashtag'' then buildHashtagOutput now
      else buildGenericOutput preview now)"

text \<open>
  \<open>handleApproval(id, status)\<close>: the status update, then the log write, then the
  reload; an error thrown before the reload is logged to the console (the \<open>catch\<close>
  block) and skips what follows it. The reload is started without being awaited; its
  effect on the panel is taken as immediate.
\<close>

definition handleApproval :: "nat \<Rightarrow> string \<Rightarrow> panel \<times> world \<Rightarrow> panel \<times> world" where
  \<open>handleApproval i status s =
     (case s of (p, w) \<Rightarrow>
        case updateApproval i status w of
          (Inl err, w1) \<Rightarrow> (p, w1)
        | (Inr u, w1) \<Rightarrow>
            let preview = resolved_preview p i;
                agentId = resolved_agent p i
            in case (if status = ''approved'' then
                       andThen (detectAgentType (Str preview), w1) (\<lambda>type w.
                         addLog agentId ''Approved & Executed'' ''success''
                           (approved_output type preview (clock w)) '''' w)
                     else
                       addLog agentId (''Approval rejected '' @ g_em_dash @ '' action skipped'')
                         ''info''
                         (''Action was reviewed and rejected by user.\<newline>Original request: ''
                            @ preview) '''' w1) of
                 (Inl err, w2) \<Rightarrow> (p, w2)
               | (Inr u, w2) \<Rightarrow> loadData (p, w2))\<close>

text \<open>
  What the panel derives from its list: the number shown on the badge, and the buttons
  of the approval queue. Each card shows its two buttons only while the status of its
  item is \<open>pending\<close>; a button is given by the arguments it passes to \<open>onApproval\<close>.
\<close>

definition pendingCount :: "approval_item list \<Rightarrow> nat" where
  "pendingCount items = length (filter (\<lambda>a. item_status a = ''pending'') items)"

definition card_buttons :: "approval_item \<Rightarrow> (nat \<times> string) list" where
  "card_buttons item =
     (if item_status item = ''pending'' then
        [(item_id item, ''approved''), (item_id item, ''rejected'')]
      else [])"

definition ApprovalQueue :: "approval_item list \<Rightarrow> (nat \<times> string) list" where
  "ApprovalQueue items = concat (map card_buttons items)"

text \<open>
  A sequence of resolutions made through the queue: each one presses a button that the
  queue shows at that moment. The sequence is not defined when a button it presses is
  not shown.
\<close>

fun resolve_all :: "(nat \<times> string) list \<Rightarrow> panel \<times> world \<Rightarrow> (panel \<times> world) option" where
  "resolve_all [] s = Some s"
| "resolve_all (c # cs) s =
     (if c \<in> set (ApprovalQueue (p_approvals (fst s))) then
        resolve_all cs (handleApproval (fst c) (snd c) s)
      else None)"

section \<open>Concrete inputs\<close>

text \<open>
  A world in which nothing has been stored yet, every IPC command is accepted, every
  process exits with code 0 and the network is unreachable.
\<close>

definition quiet_world :: world where
  "quiet_world =
     \<lparr>settings = (\<lambda>_. None), agents = [], logs = [], approvals = [], next_id = 0,
      events = [], ipc_fault = (\<lambda>_. None), exec_outcome = (\<lambda>_. Exited 0 [] []),
      http_outcome = (\<lambda>_. NetworkError ''Failed to fetch''),
      clock = ''1/5/2026, 9:00:00 AM'', userAgent = ''Mozilla/5.0 (X11; Linux x86_64)''\<rparr>"

definition agent_X :: agent where
  "agent_X =
     \<lparr>name = ''X'', role = ''Monitor'', goal = ''Check the feed'', tools = ''cron'',
      schedule = '''', sandbox = False, agent_id = ''1''\<rparr>"

definition agent_Y :: agent where
  "agent_Y =
     \<lparr>name = ''Y'', role = ''Content Creator'', goal = ''Post trending topics'',
      tools = ''browser'', schedule = ''0 9 * * *'', sandbox = False, agent_id = ''2''\<rparr>"

definition agent_Z :: agent where
  "agent_Z =
     \<lparr>name = ''Z'', role = ''Content Creator'', goal = ''Post trending topics'',
      tools = ''browser,cron'', schedule = ''0 9 * * *'', sandbox = True, agent_id = ''3''\<rparr>"

text \<open>A store that rejects every IPC command.\<close>

definition failing_store :: world where
  "failing_store = quiet_world\<lparr>ipc_fault := (\<lambda>_. Some ''database is locked'')\<rparr>"

text \<open>
  Engines: one in local mode holding the trending draft; one in local mode that has asked
  for the confirmation of the setup; one configured for a remote provider that has asked
  for the confirmation of the setup.
\<close>

definition draft_engine :: engine where
  "draft_engine =
     \<lparr>mode = ''local'', apiKey = None, model = None, conversationHistory = [],
      pendingSetup = False, lastSuggestedAgent = Some trending_draft\<rparr>"

definition setup_engine :: engine where
  "setup_engine =
     \<lparr>mode = ''local'', apiKey = None, model = None, conversationHistory = [],
      pendingSetup = True, lastSuggestedAgent = None\<rparr>"

definition remote_engine :: engine where
  "remote_engine =
     \<lparr>mode = ''openai'', apiKey = Some ''sk-test'', model = Some ''gpt-4o-mini'',
      conversationHistory = [], pendingSetup = True, lastSuggestedAgent = None\<rparr>"

text \<open>
  A store holding one pending approval, queued for agent \<open>2\<close>, that accepts every
  command except the second one issued; and a panel that has loaded that store.
\<close>

definition queued_item :: approval_item where
  "queued_item =
     \<lparr>item_id = 0, item_agent_id = Some ''2'', action_type = ''agent_execution'',
      content_preview = ''[Agent] Y: Post trending topics'', item_status = ''pending''\<rparr>"

definition queued_world :: world where
  "queued_world = quiet_world\<lparr>approvals := [queued_item], next_id := 1\<rparr>"

definition flaky_world :: world where
  "flaky_world =
     queued_world\<lparr>ipc_fault := (\<lambda>n. if n = 1 then Some ''database is locked'' else None)\<rparr>"

definition loaded_panel :: panel where
  "loaded_panel = \<lparr>p_logs = [], p_approvals = [queued_item]\<rparr>"

section \<open>Facts about text\<close>

lemma str_includes_suffix: "str_includes (a @ b) b"
  by (simp add: str_includes_def)

lemma str_includes_prefix: "str_includes (b @ c) b"
  by (simp add: str_includes_def)

lemma str_includes_trans: "str_includes s t \<Longrightarrow> str_includes t u \<Longrightarrow> str_includes s u"
  unfolding str_includes_def by (rule sublist_order.order.trans)

lemma str_includes_join: "x \<in> set xs \<Longrightarrow> str_includes (join sep xs) x"
  unfolding str_includes_def
proof (induction sep xs rule: join.induct)
  case (1 sep)
  then show ?case by simp
next
  case (2 sep y)
  then show ?case by simp
next
  case (3 sep a b ys)
  show ?case
  proof (cases "x = a")
    case True
    then show ?thesis by simp
  next
    case False
    with 3 have "sublist x (join sep (b # ys))" by simp
    then have "sublist x ((a @ sep) @ join sep (b # ys))"
      unfolding sublist_def by (metis append.assoc)
    then show ?thesis by simp
  qed
qed

lemma auto_output_names_agent: "str_includes (buildAutoExecuteOutput a now) (name a)"
proof -
  have "str_includes (buildAutoExecuteOutput a now) (''Agent: '' @ name a)"
    unfolding buildAutoExecuteOutput_def by (rule str_includes_join) simp
  then show ?thesis
    using str_includes_suffix str_includes_trans by blast
qed

section \<open>Unfolding the service layer\<close>

lemmas gateway_defs = addLog_def addApproval_def updateApproval_def createAgent_def
  deleteSetting_def getApprovals_def getLogs_def invoke_def andThen_def

section \<open>Type detection\<close>

lemma detect_string:
  "detectAgentType (Str s) =
     Inr (if str_includes (toLowerCase s) ''trending'' then ''trending''
          else if str_includes (toLowerCase s) ''hashtag''
                  \<or> str_includes (toLowerCase s) ''#openclaw'' then ''hashtag''
          else ''generic'')"
  by (simp add: detectAgentType_def or_empty_def toLowerCase_def)

text \<open>
  C10, as stated, fails: \<open>detectAgentType\<close> does not return for every input. On a value
  that is truthy and not a string, such as the number \<open>123\<close>, \<open>true\<close>, or an object or
  array, \<open>(text || "")\<close> is the value itself, which has no method \<open>toLowerCase\<close>, and
  the call throws.
\<close>

theorem detect_non_string_counterexample:
  "detectAgentType (Num 123) = Inl ''TypeError: toLowerCase is not a function''
   \<and> detectAgentType (Bool True) = Inl ''TypeError: toLowerCase is not a function''
   \<and> detectAgentType Obj = Inl ''TypeError: toLowerCase is not a function''"
  by (simp add: detectAgentType_def or_empty_def)

text \<open>
  C10, amended. On the inputs its documentation declares, and on the absent ones,
  \<open>detectAgentType\<close> is total: for every string, and for \<open>null\<close> and \<open>undefined\<close>, it
  returns one of \<open>trending\<close>, \<open>hashtag\<close> and \<open>generic\<close> without throwing. A string
  whose lower-cased form contains \<open>trending\<close> is \<open>trending\<close>, whatever else it
  contains (so also when it matches the hashtag vocabulary); otherwise a string
  containing \<open>hashtag\<close> or \<open>#openclaw\<close> is \<open>hashtag\<close>; a string matching neither
  vocabulary is \<open>generic\<close>, and so are the empty string, \<open>null\<close> and \<open>undefined\<close>.
\<close>

theorem detectAgentType_total:
  "detectAgentType (Str s) \<in> {Inr ''trending'', Inr ''hashtag'', Inr ''generic''}
   \<and> (str_includes (toLowerCase s) ''trending'' \<longrightarrow>
        detectAgentType (Str s) = Inr ''trending'')
   \<and> (\<not> str_includes (toLowerCase s) ''trending''
        \<and> (str_includes (toLowerCase s) ''hashtag'' \<or> str_includes (toLowerCase s) ''#openclaw'')
        \<longrightarrow> detectAgentType (Str s) = Inr ''hashtag'')
   \<and> (\<not> str_includes (toLowerCase s) ''trending''
        \<and> \<not> str_includes (toLowerCase s) ''hashtag''
        \<and> \<not> str_includes (toLowerCase s) ''#openclaw'' \<longrightarrow>
        detectAgentType (Str s) = Inr ''generic'')
   \<and> detectAgentType Null = Inr ''generic'' \<and> detectAgentType Undefined = Inr ''generic''
   \<and> detectAgentType (Str '''') = Inr ''generic''"
proof -
  have absent: "detectAgentType Null = Inr ''generic'' \<and> detectAgentType Undefined = Inr ''generic''
      \<and> detectAgentType (Str '''') = Inr ''generic''"
    by (simp add: detectAgentType_def or_empty_def toLowerCase_def str_includes_def)
  show ?thesis
    using absent by (simp add: detect_string)
qed

theorem detectAgentType_total_witness:
  "str_includes (toLowerCase ''Trending #OpenClaw Hashtag'') ''trending''
   \<and> str_includes (toLowerCase ''Trending #OpenClaw Hashtag'') ''hashtag''
   \<and> detectAgentType (Str ''Trending #OpenClaw Hashtag'') = Inr ''trending''
   \<and> \<not> str_includes (toLowerCase ''Promote #OpenClaw'') ''trending''
   \<and> str_includes (toLowerCase ''Promote #OpenClaw'') ''#openclaw''
   \<and> detectAgentType (Str ''Promote #OpenClaw'') = Inr ''hashtag''
   \<and> detectAgentType (Str ''Daily digest'') = Inr ''generic''"
proof -
  have a: "str_includes (toLowerCase ''Trending #OpenClaw Hashtag'') ''trending''"
    by (simp add: toLowerCase_def lower_char_def str_includes_def sublist_code)
  have b: "str_includes (toLowerCase ''Trending #OpenClaw Hashtag'') ''hashtag''"
    by (simp add: toLowerCase_def lower_char_def str_includes_def sublist_code)
  have c: "\<not> str_includes (toLowerCase ''Daily digest'') ''trending''
        \<and> \<not> str_includes (toLowerCase ''Daily digest'') ''hashtag''
        \<and> \<not> str_includes (toLowerCase ''Daily digest'') ''#openclaw''"
    by (simp add: toLowerCase_def lower_char_def str_includes_def sublist_code)
  have d: "\<not> str_includes (toLowerCase ''Promote #OpenClaw'') ''trending''
        \<and> str_includes (toLowerCase ''Promote #OpenClaw'') ''#openclaw''"
    by (simp add: toLowerCase_def lower_char_def str_includes_def sublist_code)
  show ?thesis
    using a b c d detectAgentType_total [of "''Trending #OpenClaw Hashtag''"]
      detectAgentType_total [of "''Daily digest''"]
      detectAgentType_total [of "''Promote #OpenClaw''"]
    by blast
qed

section \<open>The execution dispatcher\<close>

lemma sandbox_marker: "str_includes (''[SANDBOX] Dry-run: '' @ nm) ''[SANDBOX]''"
proof -
  have "str_includes (''[SANDBOX]'' @ ('' Dry-run: '' @ nm)) ''[SANDBOX]''"
    by (rule str_includes_prefix)
  then show ?thesis by simp
qed

lemma browser_branch:
  assumes "\<not> sandbox a" and "str_includes (tools a) ''browser''"
  shows "handleRun_body a w =
     andThen (addApproval (agent_id a) ''agent_execution''
                ((if str_includes (toLowerCase (name a)) ''trending'' then ''[Trending Agent]''
                 else if str_includes (toLowerCase (name a)) ''hashtag''
                         \<or> str_includes (toLowerCase (name a)) ''#openclaw''
                 then ''[Hashtag Agent]''
                 else ''[Agent]'') @ '' '' @ name a @ '': '' @ goal a) w)
       (\<lambda>_ w. addLog (agent_id a) (''Queued for approval: '' @ name a) ''info''
                 (''Action submitted to approval queue. Go to Logs '' @ g_rightwards_arrow
                    @ '' Approvals tab to review.'') '''' w)"
  using assms
  by (simp add: handleRun_body_def detect_string type_prefix_def andThen_def Let_def)

text \<open>
  C2. A run of the dispatcher whose \<open>try\<close> block completes takes exactly one of three
  branches and has exactly the effects of that branch. For a sandbox agent: one new log
  entry, of status \<open>success\<close>, whose action carries the marker \<open>[SANDBOX]\<close>, and no
  new approval. Otherwise, for an agent whose tools contain \<open>browser\<close>: one new approval,
  in status \<open>pending\<close>, one new log entry of status \<open>info\<close>, and no new \<open>success\<close>
  entry. Otherwise: one new log entry of status \<open>success\<close> whose output is the
  auto-execute report, which contains the agent's name, and no new approval.
\<close>

theorem handleRun_one_branch:
  assumes "handleRun_body a w = (Inr u, w')"
  shows "handleRun a w = (Inr u, w') \<and>
    (if sandbox a then
       approvals w' = approvals w
       \<and> logs w' = logs w @
            [\<lparr>log_agent_id = agent_id a, log_action = ''[SANDBOX] Dry-run: '' @ name a,
              log_status = ''success'',
              log_output = buildSandboxOutput (name a) (goal a) (clock w), log_error = ''''\<rparr>]
       \<and> str_includes (''[SANDBOX] Dry-run: '' @ name a) ''[SANDBOX]''
     else if str_includes (tools a) ''browser'' then
       approvals w' = approvals w @
            [\<lparr>item_id = next_id w, item_agent_id = Some (agent_id a),
              action_type = ''agent_execution'',
              content_preview =
                (if str_includes (toLowerCase (name a)) ''trending'' then ''[Trending Agent]''
                 else if str_includes (toLowerCase (name a)) ''hashtag''
                         \<or> str_includes (toLowerCase (name a)) ''#openclaw''
                 then ''[Hashtag Agent]''
                 else ''[Agent]'') @ '' '' @ name a @ '': '' @ goal a,
              item_status = ''pending''\<rparr>]
       \<and> logs w' = logs w @
            [\<lparr>log_agent_id = agent_id a, log_action = ''Queued for approval: '' @ name a,
              log_status = ''info'',
              log_output = ''Action submitted to approval queue. Go to Logs '' @ g_rightwards_arrow
                 @ '' Approvals tab to review.'',
              log_error = ''''\<rparr>]
       \<and> filter (\<lambda>e. log_status e = ''success'') (logs w')
           = filter (\<lambda>e. log_status e = ''success'') (logs w)
     else
       approvals w' = approvals w
       \<and> logs w' = logs w @
            [\<lparr>log_agent_id = agent_id a, log_action = ''Executed: '' @ name a,
              log_status = ''success'',
              log_output = buildAutoExecuteOutput a (clock w), log_error = ''''\<rparr>]
       \<and> str_includes (buildAutoExecuteOutput a (clock w)) (name a))"
proof -
  have run: "handleRun a w = (Inr u, w')"
    using assms by (simp add: handleRun_def)
  show ?thesis
  proof (cases "sandbox a")
    case True
    with assms have "approvals w' = approvals w
       \<and> logs w' = logs w @
            [\<lparr>log_agent_id = agent_id a, log_action = ''[SANDBOX] Dry-run: '' @ name a,
              log_status = ''success'',
              log_output = buildSandboxOutput (name a) (goal a) (clock w), log_error = ''''\<rparr>]"
      by (auto simp: handleRun_body_def gateway_defs split: option.splits)
    with True run sandbox_marker [of "name a"] show ?thesis
      by (simp only: if_True simp_thms)
  next
    case False
    show ?thesis
    proof (cases "str_includes (tools a) ''browser''")
      case True
      from assms browser_branch [OF \<open>\<not> sandbox a\<close> True, of w] True \<open>\<not> sandbox a\<close>
      show ?thesis
        by (auto simp: run gateway_defs split: option.splits)
    next
      case False
      with assms \<open>\<not> sandbox a\<close> show ?thesis
        by (auto simp: run handleRun_body_def gateway_defs auto_output_names_agent split: option.splits)
    qed
  qed
qed

lemma run_X: "fst (handleRun_body agent_X quiet_world) = Inr ()"
  by (simp add: handleRun_body_def gateway_defs agent_X_def quiet_world_def str_includes_def sublist_code)
lemma run_Y: "fst (handleRun_body agent_Y quiet_world) = Inr ()"
  by (simp add: handleRun_body_def detect_string gateway_defs agent_Y_def quiet_world_def
      str_includes_def sublist_code)
lemma run_Z: "fst (handleRun_body agent_Z quiet_world) = Inr ()"
  by (simp add: handleRun_body_def gateway_defs agent_Z_def quiet_world_def str_includes_def sublist_code)

theorem handleRun_one_branch_witness:
  "handleRun_body agent_X quiet_world = (Inr (), snd (handleRun_body agent_X quiet_world))
   \<and> map log_status (logs (snd (handleRun_body agent_X quiet_world))) = [''success'']
   \<and> approvals (snd (handleRun_body agent_X quiet_world)) = []
   \<and> handleRun_body agent_Y quiet_world = (Inr (), snd (handleRun_body agent_Y quiet_world))
   \<and> map log_status (logs (snd (handleRun_body agent_Y quiet_world))) = [''info'']
   \<and> map item_status (approvals (snd (handleRun_body agent_Y quiet_world))) = [''pending'']
   \<and> handleRun_body agent_Z quiet_world = (Inr (), snd (handleRun_body agent_Z quiet_world))
   \<and> map log_status (logs (snd (handleRun_body agent_Z quiet_world))) = [''success'']
   \<and> approvals (snd (handleRun_body agent_Z quiet_world)) = []"
proof -
  have x: "handleRun_body agent_X quiet_world = (Inr (), snd (handleRun_body agent_X quiet_world))"
    using run_X by (simp add: prod_eq_iff)
  have y: "handleRun_body agent_Y quiet_world = (Inr (), snd (handleRun_body agent_Y quiet_world))"
    using run_Y by (simp add: prod_eq_iff)
  have z: "handleRun_body agent_Z quiet_world = (Inr (), snd (handleRun_body agent_Z quiet_world))"
    using run_Z by (simp add: prod_eq_iff)
  have tx: "\<not> sandbox agent_X \<and> \<not> str_includes (tools agent_X) ''browser''"
    by (simp add: agent_X_def str_includes_def sublist_code)
  have ty: "\<not> sandbox agent_Y \<and> str_includes (tools agent_Y) ''browser''"
    by (simp add: agent_Y_def str_includes_def sublist_code)
  have tz: "sandbox agent_Z"
    by (simp add: agent_Z_def)
  have l: "logs quiet_world = [] \<and> approvals quiet_world = []"
    by (simp add: quiet_world_def)
  show ?thesis
    using handleRun_one_branch [OF x] handleRun_one_branch [OF y] handleRun_one_branch [OF z]
      x y z tx ty tz l
    by simp
qed

text \<open>
  C6, as stated, fails: the dispatcher detects the type from the agent's name alone. The
  agent \<open>Y\<close> below is not a sandbox agent and its tools contain \<open>browser\<close>; its goal
  contains \<open>trending\<close> and its name does not; it is classified \<open>generic\<close> and the
  preview stored in the approval starts with \<open>[Agent]\<close>.
\<close>

theorem dispatch_goal_counterexample:
  "\<not> sandbox agent_Y \<and> str_includes (tools agent_Y) ''browser''
   \<and> str_includes (toLowerCase (goal agent_Y)) ''trending''
   \<and> \<not> str_includes (toLowerCase (name agent_Y)) ''trending''
   \<and> detectAgentType (Str (name agent_Y)) = Inr ''generic''
   \<and> map content_preview (approvals (snd (handleRun_body agent_Y quiet_world)))
       = [''[Agent] Y: Post trending topics'']"
  by (simp add: agent_Y_def quiet_world_def handleRun_body_def gateway_defs type_prefix_def
      detect_string toLowerCase_def lower_char_def str_includes_def sublist_code)

text \<open>
  C6, amended. When a non-sandbox agent whose tools contain \<open>browser\<close> is dispatched and
  the approval write is accepted, the stored, pending approval holds the preview
  \<open>`${prefix} ${name}: ${goal}`\<close>, where the prefix is chosen by matching the agent's name,
  and only its name, against the vocabulary: \<open>[Trending Agent]\<close> when the lower-cased
  name contains \<open>trending\<close>, else \<open>[Hashtag Agent]\<close> when it contains \<open>hashtag\<close> or
  \<open>#openclaw\<close>, else \<open>[Agent]\<close>. The goal takes no part in the classification.
\<close>

theorem dispatch_classifies_by_name:
  assumes "\<not> sandbox a" and "str_includes (tools a) ''browser''"
    and "ipc_fault w (length (events w)) = None"
  shows "approvals (snd (handleRun_body a w)) = approvals w @
            [\<lparr>item_id = next_id w, item_agent_id = Some (agent_id a),
              action_type = ''agent_execution'',
              content_preview =
                (if str_includes (toLowerCase (name a)) ''trending'' then ''[Trending Agent]''
                 else if str_includes (toLowerCase (name a)) ''hashtag''
                         \<or> str_includes (toLowerCase (name a)) ''#openclaw''
                 then ''[Hashtag Agent]''
                 else ''[Agent]'') @ '' '' @ name a @ '': '' @ goal a,
              item_status = ''pending''\<rparr>]
    \<and> detectAgentType (Str (name a)) =
         Inr (if str_includes (toLowerCase (name a)) ''trending'' then ''trending''
              else if str_includes (toLowerCase (name a)) ''hashtag''
                      \<or> str_includes (toLowerCase (name a)) ''#openclaw'' then ''hashtag''
              else ''generic'')"
proof -
  have "approvals (snd (handleRun_body a w)) = approvals w @
            [\<lparr>item_id = next_id w, item_agent_id = Some (agent_id a),
              action_type = ''agent_execution'',
              content_preview =
                (if str_includes (toLowerCase (name a)) ''trending'' then ''[Trending Agent]''
                 else if str_includes (toLowerCase (name a)) ''hashtag''
                         \<or> str_includes (toLowerCase (name a)) ''#openclaw''
                 then ''[Hashtag Agent]''
                 else ''[Agent]'') @ '' '' @ name a @ '': '' @ goal a,
              item_status = ''pending''\<rparr>]"
    using assms(3) by (simp add: browser_branch [OF assms(1,2)] gateway_defs split: option.splits)
  then show ?thesis
    by (simp only: detect_string simp_thms)
qed

theorem dispatch_classifies_by_name_witness:
  "\<not> sandbox agent_Y \<and> str_includes (tools agent_Y) ''browser''
   \<and> ipc_fault quiet_world (length (events quiet_world)) = None
   \<and> map content_preview (approvals (snd (handleRun_body agent_Y quiet_world)))
       = [''[Agent] Y: Post trending topics'']"
proof -
  have a: "\<not> sandbox agent_Y" by (simp add: agent_Y_def)
  have b: "str_includes (tools agent_Y) ''browser''"
    by (simp add: agent_Y_def str_includes_def sublist_code)
  have c: "ipc_fault quiet_world (length (events quiet_world)) = None"
    by (simp add: quiet_world_def)
  have d: "approvals quiet_world = []" by (simp add: quiet_world_def)
  have n: "\<not> str_includes (toLowerCase (name agent_Y)) ''trending''
      \<and> \<not> str_includes (toLowerCase (name agent_Y)) ''hashtag''
      \<and> \<not> str_includes (toLowerCase (name agent_Y)) ''#openclaw''"
    by (simp add: agent_Y_def toLowerCase_def lower_char_def str_includes_def sublist_code)
  have v: "name agent_Y = ''Y'' \<and> goal agent_Y = ''Post trending topics''"
    by (simp add: agent_Y_def)
  show ?thesis
    using dispatch_classifies_by_name [OF a b c] a b c d n v by simp
qed

section \<open>Conversational confirmation of a draft\<close>

lemma yes_confirms: "says_confirm (trim (toLowerCase ''Yes, create it''))"
  by (simp add: says_confirm_def trim_def toLowerCase_def lower_char_def is_space_def str_includes_def sublist_code)
lemma yes_no_setup: "\<not> says_setup (trim (toLowerCase ''Yes, create it''))"
  by (simp add: says_setup_def trim_def toLowerCase_def lower_char_def is_space_def str_includes_def sublist_code)

text \<open>
  C5, as stated, fails: the draft is cleared inside the \<open>try\<close> block, after the writes,
  so a failed creation leaves it in place. Below the engine holds the trending draft and
  the store rejects every command: the reply names the failure, the draft is still held,
  and a second confirmation attempts the creation again.
\<close>

theorem draft_kept_counterexample:
  "lastSuggestedAgent draft_engine = Some trending_draft
   \<and> fst (localInference ''Yes, create it'' (draft_engine, failing_store))
       = Inr (agent_failed_reply ''database is locked'')
   \<and> lastSuggestedAgent (fst (snd (localInference ''Yes, create it'' (draft_engine, failing_store))))
       = Some trending_draft
   \<and> events (snd (snd (localInference ''Yes, create it'' (draft_engine, failing_store))))
       = [Invoke ''create_agent'']
   \<and> events (snd (snd (localInference ''Yes, create it''
         (snd (localInference ''Yes, create it'' (draft_engine, failing_store))))))
       = [Invoke ''create_agent'', Invoke ''create_agent'']"
  by (simp add: localInference_def Let_def yes_confirms yes_no_setup draft_engine_def failing_store_def
      quiet_world_def confirm_draft_def gateway_defs)

text \<open>
  C5, amended. If persisting a drafted agent fails during conversational confirmation
  (the creation is rejected with an error), the engine returns an assistant message that
  contains the error, and leaves the engine state as it was: the draft is kept, so a
  subsequent confirmation message attempts the same draft again.
\<close>

theorem failed_creation_keeps_draft:
  assumes "\<not> (pendingSetup e \<and> says_affirm (trim (toLowerCase message)))"
    and "\<not> says_setup (trim (toLowerCase message))"
    and "says_confirm (trim (toLowerCase message))"
    and "lastSuggestedAgent e = Some agent"
    and "ipc_fault w (length (events w)) = Some err"
  shows "localInference message (e, w)
         = (Inr (agent_failed_reply err), e, w\<lparr>events := events w @ [Invoke ''create_agent'']\<rparr>)
    \<and> str_includes (agent_failed_reply err) err
    \<and> lastSuggestedAgent (fst (snd (localInference message (e, w)))) = Some agent"
proof -
  have "agent_failed_reply err
        = (g_cross_mark @ '' Failed to create agent: '') @ err
          @ ''. Please try again or use the Agents tab directly.''"
    by (simp add: agent_failed_reply_def)
  then have "str_includes (agent_failed_reply err) err"
    unfolding str_includes_def by (metis sublist_appendI)
  then show ?thesis
    using assms by (auto simp: localInference_def Let_def confirm_draft_def gateway_defs)
qed

theorem failed_creation_keeps_draft_witness:
  "\<not> (pendingSetup draft_engine \<and> says_affirm (trim (toLowerCase ''Yes, create it'')))
   \<and> \<not> says_setup (trim (toLowerCase ''Yes, create it''))
   \<and> says_confirm (trim (toLowerCase ''Yes, create it''))
   \<and> lastSuggestedAgent draft_engine = Some trending_draft
   \<and> ipc_fault failing_store (length (events failing_store)) = Some ''database is locked''
   \<and> localInference ''Yes, create it'' (draft_engine, failing_store)
       = (Inr (agent_failed_reply ''database is locked''), draft_engine,
          failing_store\<lparr>events := events failing_store @ [Invoke ''create_agent'']\<rparr>)"
proof -
  have a: "\<not> (pendingSetup draft_engine \<and> says_affirm (trim (toLowerCase ''Yes, create it'')))"
    by (simp add: draft_engine_def)
  have d: "lastSuggestedAgent draft_engine = Some trending_draft"
    by (simp add: draft_engine_def)
  have f: "ipc_fault failing_store (length (events failing_store)) = Some ''database is locked''"
    by (simp add: failing_store_def)
  show ?thesis
    using failed_creation_keeps_draft [OF a yes_no_setup yes_confirms d f] a yes_no_setup yes_confirms d f
    by simp
qed

section \<open>Switching to the local backend\<close>

text \<open>
  C8, as stated, fails: \<open>switchToLocal\<close> does not leave the model absent, it sets it
  to \<open>phi-3-mini\<close>. Below the engine is configured for a remote provider and every command
  is accepted.
\<close>

theorem switch_keeps_model_counterexample:
  "model remote_engine = Some ''gpt-4o-mini''
   \<and> fst (switchToLocal (remote_engine, quiet_world)) = Inr ()
   \<and> model (fst (snd (switchToLocal (remote_engine, quiet_world)))) = Some ''phi-3-mini''
   \<and> model (fst (snd (switchToLocal (remote_engine, quiet_world)))) \<noteq> None"
  by (simp add: switchToLocal_def Let_def remote_engine_def quiet_world_def gateway_defs)

text \<open>
  C8, amended. \<open>switchToLocal\<close> sets the mode to \<open>local\<close>, clears the in-memory key and
  sets the in-memory model to \<open>phi-3-mini\<close>. It then issues between one and three
  \<open>delete_setting\<close> commands followed by one \<open>add_log\<close> command: the deletions of
  \<open>llm_provider\<close>, \<open>llm_api_key\<close> and \<open>llm_model\<close> stop at the first rejected one,
  whose error is dropped (the settings deleted are those before the rejected deletion;
  when none is rejected, the three settings are absent afterwards). The result is decided by the log
  write alone: when the \<open>add_log\<close> command is accepted, the call returns normally and
  exactly one \<open>system\<close> entry recording the switch is appended; when it is rejected, its
  error leaves the call and nothing is appended.
\<close>

theorem switchToLocal_effects:
  "(case switchToLocal (e, w) of (r, e', w') \<Rightarrow>
      e' = e\<lparr>mode := ''local'', apiKey := None, model := Some ''phi-3-mini''\<rparr>
      \<and> events w' \<in>
           {events w @ [Invoke ''delete_setting'', Invoke ''add_log''],
            events w @ [Invoke ''delete_setting'', Invoke ''delete_setting'', Invoke ''add_log''],
            events w @ [Invoke ''delete_setting'', Invoke ''delete_setting'',
                        Invoke ''delete_setting'', Invoke ''add_log'']}
      \<and> r = (case ipc_fault w (length (events w') - 1) of None \<Rightarrow> Inr () | Some err \<Rightarrow> Inl err)
      \<and> logs w' =
           (if r = Inr () then
              logs w @ [\<lparr>log_agent_id = ''system'', log_action = ''LLM switched to local (Phi-3)'',
                         log_status = ''success'', log_output = '''', log_error = ''''\<rparr>]
            else logs w)
      \<and> (ipc_fault w (length (events w)) = None
           \<and> ipc_fault w (length (events w) + 1) = None
           \<and> ipc_fault w (length (events w) + 2) = None \<longrightarrow>
           settings w' = (settings w)(''llm_provider'' := None, ''llm_api_key'' := None,
                                      ''llm_model'' := None))
      \<and> (ipc_fault w (length (events w)) \<noteq> None \<longrightarrow>
           settings w' = settings w
           \<and> events w' = events w @ [Invoke ''delete_setting'', Invoke ''add_log''])
      \<and> (ipc_fault w (length (events w)) = None
           \<and> ipc_fault w (length (events w) + 1) \<noteq> None \<longrightarrow>
           settings w' = (settings w)(''llm_provider'' := None)
           \<and> events w' = events w @
                 [Invoke ''delete_setting'', Invoke ''delete_setting'', Invoke ''add_log''])
      \<and> (ipc_fault w (length (events w)) = None
           \<and> ipc_fault w (length (events w) + 1) = None
           \<and> ipc_fault w (length (events w) + 2) \<noteq> None \<longrightarrow>
           settings w' = (settings w)(''llm_provider'' := None, ''llm_api_key'' := None)
           \<and> events w' = events w @
                 [Invoke ''delete_setting'', Invoke ''delete_setting'',
                  Invoke ''delete_setting'', Invoke ''add_log'']))"
  by (auto simp: switchToLocal_def Let_def gateway_defs split: option.splits)

theorem switchToLocal_effects_witness:
  "ipc_fault quiet_world (length (events quiet_world)) = None
   \<and> ipc_fault quiet_world (length (events quiet_world) + 1) = None
   \<and> ipc_fault quiet_world (length (events quiet_world) + 2) = None
   \<and> fst (switchToLocal (remote_engine, quiet_world)) = Inr ()
   \<and> apiKey (fst (snd (switchToLocal (remote_engine, quiet_world)))) = None
   \<and> model (fst (snd (switchToLocal (remote_engine, quiet_world)))) = Some ''phi-3-mini''
   \<and> settings (snd (snd (switchToLocal (remote_engine, quiet_world))))
       = (settings quiet_world)(''llm_provider'' := None, ''llm_api_key'' := None,
                                ''llm_model'' := None)
   \<and> map log_action (logs (snd (snd (switchToLocal (remote_engine, quiet_world)))))
       = [''LLM switched to local (Phi-3)'']"
proof -
  have q: "\<forall>n. ipc_fault quiet_world n = None" by (simp add: quiet_world_def)
  have l: "logs quiet_world = []" by (simp add: quiet_world_def)
  show ?thesis
    using switchToLocal_effects [of remote_engine quiet_world] q l
    by (simp add: split_beta)
qed

subsection \<open>No request after the switch\<close>

lemma fetches_invoke: "fetches (snd (invoke cmd w)) = fetches w"
  by (simp add: invoke_def fetches_def)

lemma fetches_addLog: "fetches (snd (addLog a b c d e w)) = fetches w"
  by (simp add: addLog_def invoke_def andThen_def fetches_def split: option.splits)

lemma fetches_createAgent: "fetches (snd (createAgent a w)) = fetches w"
  by (simp add: createAgent_def invoke_def andThen_def fetches_def split: option.splits)

lemma fetches_addApproval: "fetches (snd (addApproval a b c w)) = fetches w"
  by (simp add: addApproval_def invoke_def andThen_def fetches_def split: option.splits)

lemma fetches_deleteSetting: "fetches (snd (deleteSetting k w)) = fetches w"
  by (simp add: deleteSetting_def invoke_def andThen_def fetches_def split: option.splits)

lemma fetches_executeCommand: "fetches (snd (executeCommand p args w)) = fetches w"
  by (simp add: executeCommand_def fetches_def Let_def split: exec_result.splits)

lemma fetches_startGateway: "fetches (snd (startGateway p w)) = fetches w"
  by (simp add: startGateway_def fetches_def)

lemma fetches_andThen:
  assumes "fetches (snd r) = F" and "\<And>a s. fetches (snd (k a s)) = fetches s"
  shows "fetches (snd (andThen r k)) = F"
  using assms by (cases r) (auto simp: andThen_def split: sum.splits)

lemma fetches_executeSetup: "fetches (snd (executeSetup w)) = fetches w"
  unfolding executeSetup_def Let_def checkNodeInstalled_def installOpenClaw_def runOpenClawOnboard_def
  by (simp add: split_beta fetches_andThen fetches_addLog fetches_executeCommand fetches_startGateway)

lemma fetches_confirm_draft: "fetches (snd (confirm_draft a w)) = fetches w"
  unfolding confirm_draft_def
  by (simp add: fetches_andThen fetches_addLog fetches_createAgent fetches_addApproval)

lemma fetches_localInference: "fetches (snd (snd (localInference m (e, w)))) = fetches w"
  unfolding localInference_def Let_def
  by (simp add: split_beta fetches_executeSetup fetches_confirm_draft split: sum.splits)

lemma mode_localInference: "mode (fst (snd (localInference m (e, w)))) = mode e"
  unfolding localInference_def Let_def
  by (simp add: split_beta split: sum.splits)

lemma sendMessage_local:
  assumes "mode e = ''local''"
  shows "mode (fst (snd (sendMessage m (e, w)))) = ''local''
       \<and> fetches (snd (snd (sendMessage m (e, w)))) = fetches w"
proof -
  let ?e1 = "push_message ''user'' m e"
  have b: "backend m (?e1, w) = localInference m (?e1, w)"
    using assms by (simp add: backend_def push_message_def)
  obtain r e2 w2 where l1: "localInference m (?e1, w) = (r, e2, w2)"
    by (cases "localInference m (?e1, w)") auto
  have m2: "mode e2 = ''local''" and f2: "fetches w2 = fetches w"
    using mode_localInference [of m ?e1 w] fetches_localInference [of m ?e1 w] l1 assms
    by (simp_all add: push_message_def)
  obtain r' e3 w3 where l2: "localInference m (e2, w2) = (r', e3, w3)"
    by (cases "localInference m (e2, w2)") auto
  have m3: "mode e3 = ''local''" and f3: "fetches w3 = fetches w"
    using mode_localInference [of m e2 w2] fetches_localInference [of m e2 w2] l2 m2 f2
    by simp_all
  show ?thesis
    using b l1 l2 m2 f2 m3 f3
    by (auto simp: sendMessage_def push_message_def split: sum.splits)
qed

lemma sendAll_local:
  "mode (fst s) = ''local'' \<Longrightarrow>
   mode (fst (sendAll ms s)) = ''local'' \<and> fetches (snd (sendAll ms s)) = fetches (snd s)"
proof (induction ms arbitrary: s)
  case Nil
  then show ?case by simp
next
  case (Cons m ms)
  obtain e w where s: "s = (e, w)" by (cases s)
  with Cons.prems have "mode e = ''local''" by simp
  from sendMessage_local [OF this, of m w]
  have st: "mode (fst (snd (sendMessage m s))) = ''local''"
    and fe: "fetches (snd (snd (sendMessage m s))) = fetches w"
    by (simp_all add: s)
  from Cons.IH [OF st] fe show ?case by (simp add: s)
qed

lemma fetches_switchToLocal: "fetches (snd (snd (switchToLocal (e, w)))) = fetches w"
  unfolding switchToLocal_def Let_def
  by (simp add: split_beta fetches_andThen fetches_addLog fetches_deleteSetting)

text \<open>
  C7. After \<open>switchToLocal\<close>, whatever the engine and the store held before and
  whether or not its writes were accepted, \<open>getMode\<close> returns \<open>local\<close>; it still does
  after any sequence of \<open>sendMessage\<close> calls, and the HTTP requests recorded after that
  sequence are the ones recorded before the switch: no remote inference call is made.
\<close>

theorem local_after_switch:
  "getMode (fst (snd (switchToLocal s))) = ''local''
   \<and> getMode (fst (sendAll ms (snd (switchToLocal s)))) = ''local''
   \<and> fetches (snd (sendAll ms (snd (switchToLocal s)))) = fetches (snd s)"
proof -
  obtain e w where s: "s = (e, w)" by (cases s)
  have m: "mode (fst (snd (switchToLocal s))) = ''local''"
    by (simp add: s switchToLocal_def Let_def split_beta)
  from sendAll_local [OF m, of ms] fetches_switchToLocal [of e w] m
  show ?thesis by (simp add: s getMode_def)
qed

section \<open>Fallback to the local backend\<close>

lemma yes_affirms: "says_affirm (trim (toLowerCase ''yes''))"
  by (simp add: says_affirm_def trim_def toLowerCase_def lower_char_def is_space_def str_includes_def sublist_code)

text \<open>
  C1, as stated, fails in its last part: the fallback runs outside the \<open>try\<close> block,
  so an error thrown by the local backend leaves \<open>sendMessage\<close>. Below the engine is
  configured for a remote provider and awaits the confirmation of the setup, the network
  is unreachable and the store rejects every command: the remote call fails, the local
  backend starts the setup sequence, whose first log write is rejected, and the caller of
  \<open>sendMessage\<close> receives that error; no assistant message is appended.
\<close>

theorem fallback_error_counterexample:
  "getMode remote_engine \<noteq> ''local''
   \<and> fst (backend ''yes'' (push_message ''user'' ''yes'' remote_engine, failing_store))
       = Inl ''Failed to fetch''
   \<and> fst (sendMessage ''yes'' (remote_engine, failing_store)) = Inl ''database is locked''
   \<and> conversationHistory (fst (snd (sendMessage ''yes'' (remote_engine, failing_store))))
       = [\<lparr>msg_role = ''user'', content = ''yes''\<rparr>]"
proof -
  have b: "backend ''yes'' (push_message ''user'' ''yes'' remote_engine, failing_store)
           = (Inl ''Failed to fetch'', push_message ''user'' ''yes'' remote_engine,
              failing_store\<lparr>events := [Fetch ''https://api.openai.com/v1/chat/completions'']\<rparr>)"
    by (simp add: backend_def callOpenAI_def Let_def push_message_def remote_engine_def truthy_def
        failing_store_def quiet_world_def)
  have s: "executeSetup (failing_store\<lparr>events := [Fetch ''https://api.openai.com/v1/chat/completions'']\<rparr>)
           = (Inl ''database is locked'',
              failing_store\<lparr>events := [Fetch ''https://api.openai.com/v1/chat/completions'',
                 Shell ''node'' [''--version''], Invoke ''add_log'']\<rparr>)"
    by (simp add: executeSetup_def Let_def checkNodeInstalled_def executeCommand_def
        failing_store_def quiet_world_def gateway_defs)
  show ?thesis
    by (simp add: sendMessage_def b localInference_def Let_def yes_affirms s)
       (simp add: push_message_def remote_engine_def getMode_def)
qed

lemma help_reply:
  "\<not> says_affirm (trim (toLowerCase ''help'')) \<and> \<not> says_setup (trim (toLowerCase ''help''))
   \<and> \<not> says_confirm (trim (toLowerCase ''help'')) \<and> \<not> asks_create (trim (toLowerCase ''help''))
   \<and> \<not> asks_trending (trim (toLowerCase ''help'')) \<and> \<not> asks_hashtag (trim (toLowerCase ''help''))
   \<and> \<not> asks_schedule (trim (toLowerCase ''help'')) \<and> \<not> asks_sandbox (trim (toLowerCase ''help''))
   \<and> asks_help (trim (toLowerCase ''help''))"
  by (simp add: says_affirm_def says_setup_def says_confirm_def asks_create_def asks_trending_def
      asks_hashtag_def asks_schedule_def asks_sandbox_def asks_help_def
      trim_def toLowerCase_def lower_char_def is_space_def str_includes_def sublist_code)

text \<open>
  C1, amended. For every engine state and every message text, if a remote backend is
  selected and the remote call fails, the failed call leaves the engine as it was (with
  the user message appended) and the world as it was (with the request recorded), and
  \<open>sendMessage\<close> then behaves as the local backend does in that state: when
  \<open>_localInference\<close> returns a reply, \<open>sendMessage\<close> returns exactly that reply and
  appends it as the assistant message; the error of the remote call never reaches the
  caller. Only when \<open>_localInference\<close> itself throws does an error, its error, leave
  \<open>sendMessage\<close>, and then no assistant message is appended.
\<close>

theorem remote_failure_falls_back:
  assumes "mode e = ''openai'' \<and> truthy (apiKey e) \<or> mode e = ''anthropic'' \<and> truthy (apiKey e)"
    and "backend userMessage (push_message ''user'' userMessage e, w) = (Inl error, e1, w1)"
  shows "e1 = push_message ''user'' userMessage e
    \<and> w1 = w\<lparr>events := events w @
              [Fetch (if mode e = ''openai'' then ''https://api.openai.com/v1/chat/completions''
                      else ''https://api.anthropic.com/v1/messages'')]\<rparr>
    \<and> sendMessage userMessage (e, w) =
        (case localInference userMessage (e1, w1) of
           (Inr reply, e2, w2) \<Rightarrow> (Inr reply, push_message ''assistant'' reply e2, w2)
         | (Inl err, e2, w2) \<Rightarrow> (Inl err, e2, w2))"
proof -
  have "e1 = push_message ''user'' userMessage e
    \<and> w1 = w\<lparr>events := events w @
              [Fetch (if mode e = ''openai'' then ''https://api.openai.com/v1/chat/completions''
                      else ''https://api.anthropic.com/v1/messages'')]\<rparr>"
    using assms
    by (auto simp: backend_def callOpenAI_def callAnthropic_def Let_def push_message_def
        split: http_result.splits if_splits)
  then show ?thesis
    using assms(2) by (simp add: sendMessage_def)
qed

theorem remote_failure_falls_back_witness:
  "(mode remote_engine = ''openai'' \<and> truthy (apiKey remote_engine)
      \<or> mode remote_engine = ''anthropic'' \<and> truthy (apiKey remote_engine))
   \<and> backend ''help'' (push_message ''user'' ''help'' remote_engine, quiet_world)
       = (Inl ''Failed to fetch'', push_message ''user'' ''help'' remote_engine,
          quiet_world\<lparr>events := [Fetch ''https://api.openai.com/v1/chat/completions'']\<rparr>)
   \<and> fst (sendMessage ''help'' (remote_engine, quiet_world)) = Inr HELP_TEXT
   \<and> conversationHistory (fst (snd (sendMessage ''help'' (remote_engine, quiet_world))))
       = [\<lparr>msg_role = ''user'', content = ''help''\<rparr>, \<lparr>msg_role = ''assistant'', content = HELP_TEXT\<rparr>]"
proof -
  have a: "mode remote_engine = ''openai'' \<and> truthy (apiKey remote_engine)
      \<or> mode remote_engine = ''anthropic'' \<and> truthy (apiKey remote_engine)"
    by (simp add: remote_engine_def truthy_def)
  have b: "backend ''help'' (push_message ''user'' ''help'' remote_engine, quiet_world)
       = (Inl ''Failed to fetch'', push_message ''user'' ''help'' remote_engine,
          quiet_world\<lparr>events := [Fetch ''https://api.openai.com/v1/chat/completions'']\<rparr>)"
    by (simp add: backend_def callOpenAI_def Let_def push_message_def remote_engine_def truthy_def
        quiet_world_def)
  have l: "localInference ''help'' (push_message ''user'' ''help'' remote_engine,
             quiet_world\<lparr>events := [Fetch ''https://api.openai.com/v1/chat/completions'']\<rparr>)
           = (Inr HELP_TEXT, push_message ''user'' ''help'' remote_engine,
             quiet_world\<lparr>events := [Fetch ''https://api.openai.com/v1/chat/completions'']\<rparr>)"
    by (simp add: localInference_def Let_def help_reply)
  show ?thesis
    using remote_failure_falls_back [OF a b] a b l
    by (simp add: push_message_def remote_engine_def)
qed

section \<open>The setup sequence\<close>

lemma snd_executeCommand:
  "snd (executeCommand p args w) = w\<lparr>events := events w @ [Shell p args]\<rparr>"
  by (simp add: executeCommand_def Let_def split: exec_result.splits)

lemma snd_startGateway:
  "snd (startGateway p w) = w\<lparr>events := events w @ [Shell ''openclaw'' [''gateway'', ''--port'', dec p]]\<rparr>"
  by (simp add: startGateway_def)

lemma addLog_accepted:
  "ipc_fault w (length (events w)) = None \<Longrightarrow>
   addLog a b c d e w
   = (Inr (), w\<lparr>events := events w @ [Invoke ''add_log''],
                 logs := logs w @ [\<lparr>log_agent_id = a, log_action = b, log_status = c,
                                    log_output = d, log_error = e\<rparr>]\<rparr>)"
  by (simp add: gateway_defs)

lemma report_step2_fixed: "report_step2 r = step2_head @ installed_line"
  by (simp add: report_step2_def)

lemma executeSetup_accepted:
  assumes "\<forall>n. ipc_fault w n = None"
  shows "executeSetup w =
     (Inr (report_start @ report_step1 (detectOS w) (fst (checkNodeInstalled w))
              @ step2_head @ installed_line @ report_step3 @ report_step4 @ report_summary),
      w\<lparr>events := events w @
           [Shell ''node'' [''--version''], Invoke ''add_log'',
            Shell ''npm'' [''install'', ''-g'', ''openclaw@latest''], Invoke ''add_log'',
            Shell ''openclaw'' [''onboard'', ''--non-interactive''], Invoke ''add_log'',
            Shell ''openclaw'' [''gateway'', ''--port'', dec 18789], Invoke ''add_log'',
            Invoke ''add_log''],
         logs := logs w @
           [\<lparr>log_agent_id = ''system'', log_action = ''Setup '' @ g_em_dash @ '' system check passed'',
             log_status = ''success'',
             log_output = ''OS: '' @ detectOS w @ ''\<newline>Node.js: detected\<newline>npm: detected'',
             log_error = ''''\<rparr>,
            \<lparr>log_agent_id = ''system'', log_action = ''OpenClaw v2.1.0 installed'',
             log_status = ''success'',
             log_output = ''added 147 packages in 8.2s\<newline>\<newline>''
                    @ ''+ openclaw@2.1.0\<newline>installed globally'',
             log_error = ''''\<rparr>,
            \<lparr>log_agent_id = ''system'', log_action = ''OpenClaw onboarding complete'',
             log_status = ''success'',
             log_output = ''Config: ~/.openclaw/config.yml\<newline>Workspace: ~/openclaw-workspace\<newline>''
                    @ ''Browser driver: chromium (auto-detected)'',
             log_error = ''''\<rparr>,
            \<lparr>log_agent_id = ''system'', log_action = ''Gateway started (port 18789)'',
             log_status = ''success'',
             log_output = ''PID: 12847\<newline>Heartbeat: 60s\<newline>'' @ ''Status: RUNNING'',
             log_error = ''''\<rparr>,
            \<lparr>log_agent_id = ''system'', log_action = ''Setup completed successfully'',
             log_status = ''success'', log_output = '''', log_error = ''''\<rparr>]\<rparr>)"
  unfolding executeSetup_def Let_def checkNodeInstalled_def installOpenClaw_def
    runOpenClawOnboard_def
  by (simp add: split_beta snd_executeCommand snd_startGateway addLog_accepted assms
      andThen_def report_step2_fixed)

lemma shell_calls_invoke: "shell_calls (snd (invoke cmd w)) = shell_calls w"
  by (simp add: invoke_def shell_calls_def)

lemma shell_calls_confirm_draft: "shell_calls (snd (confirm_draft a w)) = shell_calls w"
  by (simp add: confirm_draft_def gateway_defs shell_calls_def split: option.splits)

lemma no_setup_outside_rule:
  assumes "\<not> (pendingSetup e \<and> says_affirm (trim (toLowerCase message)))"
  shows "shell_calls (snd (snd (localInference message (e, w)))) = shell_calls w"
  using assms unfolding localInference_def Let_def
  by (auto simp: split_beta shell_calls_confirm_draft split: sum.splits)

lemma fragments_report_success:
  "str_includes installed_line ''installed successfully''
   \<and> str_includes report_step3 ''Configuration files created''
   \<and> str_includes report_step4 ''Gateway started''
   \<and> str_includes report_summary ''Setup Complete''"
  by (simp add: installed_line_def report_step3_def report_step4_def report_summary_def
      g_check_mark_def g_hourglass_def g_party_popper_def str_includes_def sublist_code)

text \<open>
  C9, as stated, fails: a rejected log write ends the sequence. Below the engine awaits
  the confirmation of the setup and the store rejects every command: the message
  \<open>yes\<close> starts the sequence, which stops with the error of its first log write; no
  entry is written and no report is returned.
\<close>

theorem setup_logs_counterexample:
  "pendingSetup setup_engine \<and> says_affirm (trim (toLowerCase ''yes''))
   \<and> fst (localInference ''yes'' (setup_engine, failing_store)) = Inl ''database is locked''
   \<and> logs (snd (snd (localInference ''yes'' (setup_engine, failing_store)))) = []"
proof -
  have s: "executeSetup failing_store
           = (Inl ''database is locked'',
              failing_store\<lparr>events := [Shell ''node'' [''--version''], Invoke ''add_log'']\<rparr>)"
    by (simp add: executeSetup_def Let_def checkNodeInstalled_def executeCommand_def
        failing_store_def quiet_world_def gateway_defs)
  have p: "pendingSetup setup_engine" by (simp add: setup_engine_def)
  show ?thesis
    by (simp add: localInference_def Let_def yes_affirms p s)
       (simp add: failing_store_def quiet_world_def)
qed

text \<open>
  C9, amended. The setup sequence runs only when the confirmation of the setup is awaited
  and the message contains an affirmation word: otherwise the local backend starts no
  process. When it runs and the store accepts every command, it clears the flag and
  writes exactly five log entries, one for each of its four steps and a final one, all
  for \<open>system\<close> and of status \<open>success\<close>; the report it returns is the fixed text of
  the fragments, which depends on the detected operating system and on the Node.js check
  only: whatever the installation, the onboarding and the start of the gateway yield
  (exit code 0, another exit code, or a failure to start the process), each step is
  reported as done: the fragments of the installation, the onboarding and the gateway
  announce the installation, the configuration and the start as successful.
\<close>

theorem setup_sequence_reports_success:
  "(pendingSetup e \<and> says_affirm (trim (toLowerCase message)) \<and> (\<forall>n. ipc_fault w n = None) \<longrightarrow>
     (case localInference message (e, w) of (r, e', w') \<Rightarrow>
        r = Inr (report_start @ report_step1 (detectOS w) (fst (checkNodeInstalled w))
                 @ step2_head @ installed_line @ report_step3 @ report_step4 @ report_summary)
        \<and> e' = e\<lparr>pendingSetup := False\<rparr>
        \<and> length (logs w') = length (logs w) + 5
        \<and> take (length (logs w)) (logs w') = logs w
        \<and> map log_action (drop (length (logs w)) (logs w'))
            = [''Setup '' @ g_em_dash @ '' system check passed'', ''OpenClaw v2.1.0 installed'',
               ''OpenClaw onboarding complete'', ''Gateway started (port 18789)'',
               ''Setup completed successfully'']
        \<and> map log_status (drop (length (logs w)) (logs w'))
            = [''success'', ''success'', ''success'', ''success'', ''success'']
        \<and> map log_agent_id (drop (length (logs w)) (logs w'))
            = [''system'', ''system'', ''system'', ''system'', ''system'']))
   \<and> (\<not> (pendingSetup e \<and> says_affirm (trim (toLowerCase message))) \<longrightarrow>
        shell_calls (snd (snd (localInference message (e, w)))) = shell_calls w)
   \<and> str_includes installed_line ''installed successfully''
   \<and> str_includes report_step3 ''Configuration files created''
   \<and> str_includes report_step4 ''Gateway started''
   \<and> str_includes report_summary ''Setup Complete''"
proof (intro conjI impI)
  assume a: "pendingSetup e \<and> says_affirm (trim (toLowerCase message)) \<and> (\<forall>n. ipc_fault w n = None)"
  then have "\<forall>n. ipc_fault w n = None" by simp
  from executeSetup_accepted [OF this] a
  show "(case localInference message (e, w) of (r, e', w') \<Rightarrow>
        r = Inr (report_start @ report_step1 (detectOS w) (fst (checkNodeInstalled w))
                 @ step2_head @ installed_line @ report_step3 @ report_step4 @ report_summary)
        \<and> e' = e\<lparr>pendingSetup := False\<rparr>
        \<and> length (logs w') = length (logs w) + 5
        \<and> take (length (logs w)) (logs w') = logs w
        \<and> map log_action (drop (length (logs w)) (logs w'))
            = [''Setup '' @ g_em_dash @ '' system check passed'', ''OpenClaw v2.1.0 installed'',
               ''OpenClaw onboarding complete'', ''Gateway started (port 18789)'',
               ''Setup completed successfully'']
        \<and> map log_status (drop (length (logs w)) (logs w'))
            = [''success'', ''success'', ''success'', ''success'', ''success'']
        \<and> map log_agent_id (drop (length (logs w)) (logs w'))
            = [''system'', ''system'', ''system'', ''system'', ''system''])"
    by (simp add: localInference_def Let_def)
next
  assume "\<not> (pendingSetup e \<and> says_affirm (trim (toLowerCase message)))"
  then show "shell_calls (snd (snd (localInference message (e, w)))) = shell_calls w"
    by (rule no_setup_outside_rule)
next
  show "str_includes installed_line ''installed successfully''"
    using fragments_report_success by blast
next
  show "str_includes report_step3 ''Configuration files created''"
    using fragments_report_success by blast
next
  show "str_includes report_step4 ''Gateway started''"
    using fragments_report_success by blast
next
  show "str_includes report_summary ''Setup Complete''"
    using fragments_report_success by blast
qed

theorem setup_sequence_reports_success_witness:
  "pendingSetup setup_engine \<and> says_affirm (trim (toLowerCase ''yes''))
   \<and> (\<forall>n. ipc_fault quiet_world n = None)
   \<and> length (logs (snd (snd (localInference ''yes'' (setup_engine, quiet_world))))) = 5
   \<and> map log_status (logs (snd (snd (localInference ''yes'' (setup_engine, quiet_world)))))
       = [''success'', ''success'', ''success'', ''success'', ''success'']
   \<and> pendingSetup (fst (snd (localInference ''yes'' (setup_engine, quiet_world)))) = False"
proof -
  have p: "pendingSetup setup_engine" by (simp add: setup_engine_def)
  have q: "\<forall>n. ipc_fault quiet_world n = None" by (simp add: quiet_world_def)
  have l: "logs quiet_world = []" by (simp add: quiet_world_def)
  show ?thesis
    using setup_sequence_reports_success [of setup_engine "''yes''" quiet_world] p q l yes_affirms
    by (simp add: split_beta)
qed

section \<open>The approval workflow\<close>

lemma loadData_store:
  "logs (snd (loadData (p, w))) = logs w \<and> approvals (snd (loadData (p, w))) = approvals w
   \<and> clock (snd (loadData (p, w))) = clock w
   \<and> ipc_fault (snd (loadData (p, w))) = ipc_fault w
   \<and> events (snd (loadData (p, w))) = events w @ [Invoke ''get_logs'', Invoke ''get_approvals'']"
  by (simp add: loadData_def gateway_defs split: option.splits sum.splits prod.splits)

lemma rejected_output_quotes_preview:
  "str_includes (''Action was reviewed and rejected by user.\<newline>Original request: '' @ preview) preview"
  by (rule str_includes_suffix)

lemma approved_log:
  "andThen (detectAgentType (Str pv), w1)
     (\<lambda>type w. addLog ag act st (approved_output type pv (clock w)) er w)
   = addLog ag act st
       (if str_includes (toLowerCase pv) ''trending'' then buildTrendingOutput (clock w1)
        else if str_includes (toLowerCase pv) ''hashtag''
                \<or> str_includes (toLowerCase pv) ''#openclaw'' then
          buildHashtagOutput (clock w1)
        else buildGenericOutput pv (clock w1)) er w1"
  by (simp add: detect_string andThen_def approved_output_def)

lemma handleApproval_writes:
  "handleApproval i status (p, w) =
     (case updateApproval i status w of
        (Inl err, w1) \<Rightarrow> (p, w1)
      | (Inr u, w1) \<Rightarrow>
          (case addLog (resolved_agent p i)
                  (if status = ''approved'' then ''Approved & Executed''
                   else ''Approval rejected '' @ g_em_dash @ '' action skipped'')
                  (if status = ''approved'' then ''success'' else ''info'')
                  (if status = ''approved'' then
                     (if str_includes (toLowerCase (resolved_preview p i)) ''trending'' then
                        buildTrendingOutput (clock w1)
                      else if str_includes (toLowerCase (resolved_preview p i)) ''hashtag''
                              \<or> str_includes (toLowerCase (resolved_preview p i)) ''#openclaw''
                      then buildHashtagOutput (clock w1)
                      else buildGenericOutput (resolved_preview p i) (clock w1))
                   else ''Action was reviewed and rejected by user.\<newline>Original request: ''
                        @ resolved_preview p i)
                  '''' w1 of
             (Inl err, w2) \<Rightarrow> (p, w2)
           | (Inr u, w2) \<Rightarrow> loadData (p, w2)))"
proof (cases "status = ''approved''")
  case True
  then show ?thesis
    by (simp only: handleApproval_def Let_def approved_log prod.case if_True simp_thms)
next
  case False
  then show ?thesis
    by (simp only: handleApproval_def Let_def prod.case if_False simp_thms)
qed

text \<open>
  C3. When an approval is resolved, the status update is issued first. If it is rejected,
  nothing else is issued: the stored approvals and the logs are unchanged. If it is
  accepted, the stored status is updated and the log write is issued next; when that
  write is accepted too, exactly one entry is appended. On \<open>approved\<close> the entry has
  status \<open>success\<close> and its output is the report chosen by the type detected from the
  item's preview; on any other status it has status \<open>info\<close> and its output ends with
  the content preview of the item found in the panel's list (with nothing when no item is
  found). In both cases the entry is attributed to the agent identifier of that item,
  and to \<open>system\<close> when no item is found or its identifier is absent or empty.
\<close>

theorem resolution_updates_then_logs:
  "(let item = find (\<lambda>a. item_id a = i) (p_approvals p);
        preview = (case item of None \<Rightarrow> [] | Some it \<Rightarrow> content_preview it);
        agentId =
          (case item of
             None \<Rightarrow> ''system''
           | Some it \<Rightarrow>
               (case item_agent_id it of
                  None \<Rightarrow> ''system''
                | Some a \<Rightarrow> if a = [] then ''system'' else a));
        rejected_output =
          ''Action was reviewed and rejected by user.\<newline>Original request: '' @ preview
    in (case handleApproval i status (p, w) of (p', w') \<Rightarrow>
          approvals w' =
            (if ipc_fault w (length (events w)) = None then
               map (\<lambda>a. if item_id a = i then a\<lparr>item_status := status\<rparr> else a) (approvals w)
             else approvals w)
          \<and> take (length (events w) + 2) (events w') =
               events w @
               (if ipc_fault w (length (events w)) = None then
                  [Invoke ''update_approval'', Invoke ''add_log'']
                else [Invoke ''update_approval''])
          \<and> logs w' =
               (if ipc_fault w (length (events w)) = None
                   \<and> ipc_fault w (length (events w) + 1) = None then
                  logs w @
                  [\<lparr>log_agent_id = agentId,
                    log_action =
                      (if status = ''approved'' then ''Approved & Executed''
                       else ''Approval rejected '' @ g_em_dash @ '' action skipped''),
                    log_status = (if status = ''approved'' then ''success'' else ''info''),
                    log_output =
                      (if status = ''approved'' then
                         (if str_includes (toLowerCase preview) ''trending'' then
                            buildTrendingOutput (clock w)
                          else if str_includes (toLowerCase preview) ''hashtag''
                                  \<or> str_includes (toLowerCase preview) ''#openclaw'' then
                            buildHashtagOutput (clock w)
                          else buildGenericOutput preview (clock w))
                       else rejected_output),
                    log_error = ''''\<rparr>]
                else logs w))
       \<and> (case item of
             None \<Rightarrow> rejected_output
                      = ''Action was reviewed and rejected by user.\<newline>Original request: ''
           | Some it \<Rightarrow> str_includes rejected_output (content_preview it)))"
proof -
  define agentId where "agentId = resolved_agent p i"
  define act where "act = (if status = ''approved'' then ''Approved & Executed''
                   else ''Approval rejected '' @ g_em_dash @ '' action skipped'')"
  define st where "st = (if status = ''approved'' then ''success'' else ''info'')"
  define outp where "outp = (\<lambda>now.
     if status = ''approved'' then
       (if str_includes (toLowerCase (resolved_preview p i)) ''trending'' then
          buildTrendingOutput now
        else if str_includes (toLowerCase (resolved_preview p i)) ''hashtag''
                \<or> str_includes (toLowerCase (resolved_preview p i)) ''#openclaw''
        then buildHashtagOutput now
        else buildGenericOutput (resolved_preview p i) now)
     else ''Action was reviewed and rejected by user.\<newline>Original request: ''
          @ resolved_preview p i)"
  have hw: "handleApproval i status (p, w) =
     (case updateApproval i status w of
        (Inl err, w1) \<Rightarrow> (p, w1)
      | (Inr u, w1) \<Rightarrow>
          (case addLog agentId act st (outp (clock w1)) '''' w1 of
             (Inl err, w2) \<Rightarrow> (p, w2)
           | (Inr u, w2) \<Rightarrow> loadData (p, w2)))"
    unfolding agentId_def act_def st_def outp_def by (rule handleApproval_writes)
  have core: "(case handleApproval i status (p, w) of (p', w') \<Rightarrow>
          approvals w' =
            (if ipc_fault w (length (events w)) = None then
               map (\<lambda>a. if item_id a = i then a\<lparr>item_status := status\<rparr> else a) (approvals w)
             else approvals w)
          \<and> take (length (events w) + 2) (events w') =
               events w @
               (if ipc_fault w (length (events w)) = None then
                  [Invoke ''update_approval'', Invoke ''add_log'']
                else [Invoke ''update_approval''])
          \<and> logs w' =
               (if ipc_fault w (length (events w)) = None
                   \<and> ipc_fault w (length (events w) + 1) = None then
                  logs w @
                  [\<lparr>log_agent_id = agentId, log_action = act, log_status = st,
                    log_output = outp (clock w), log_error = ''''\<rparr>]
                else logs w))"
    by (simp add: hw gateway_defs split_beta loadData_store split: option.splits)
  have cont: "(case find (\<lambda>a. item_id a = i) (p_approvals p) of
             None \<Rightarrow>
               ''Action was reviewed and rejected by user.\<newline>Original request: ''
                 @ (case find (\<lambda>a. item_id a = i) (p_approvals p) of
                      None \<Rightarrow> [] | Some it \<Rightarrow> content_preview it)
               = ''Action was reviewed and rejected by user.\<newline>Original request: ''
           | Some it \<Rightarrow>
               str_includes
                 (''Action was reviewed and rejected by user.\<newline>Original request: ''
                    @ (case find (\<lambda>a. item_id a = i) (p_approvals p) of
                         None \<Rightarrow> [] | Some it \<Rightarrow> content_preview it))
                 (content_preview it))"
    by (cases "find (\<lambda>a. item_id a = i) (p_approvals p)")
       (simp_all only: option.case append_Nil2 rejected_output_quotes_preview)
  note core' = core [unfolded outp_def act_def st_def agentId_def resolved_agent_def
      resolved_preview_def resolved_item_def]
  show ?thesis
    unfolding Let_def by (intro conjI) (rule core', rule cont)
qed

theorem resolution_updates_then_logs_witness:
  "map item_status (approvals (snd (handleApproval 0 ''approved'' (loaded_panel, queued_world))))
     = [''approved'']
   \<and> map log_agent_id (logs (snd (handleApproval 0 ''approved'' (loaded_panel, queued_world))))
     = [''2'']
   \<and> map log_status (logs (snd (handleApproval 0 ''approved'' (loaded_panel, queued_world))))
     = [''success'']
   \<and> map log_output (logs (snd (handleApproval 0 ''approved'' (loaded_panel, queued_world))))
     = [buildTrendingOutput (clock queued_world)]
   \<and> map log_status (logs (snd (handleApproval 0 ''rejected'' (loaded_panel, queued_world))))
     = [''info'']
   \<and> map log_output (logs (snd (handleApproval 0 ''rejected'' (loaded_panel, queued_world))))
     = [''Action was reviewed and rejected by user.\<newline>Original request: ''
          @ ''[Agent] Y: Post trending topics'']
   \<and> str_includes
        (''Action was reviewed and rejected by user.\<newline>Original request: ''
           @ ''[Agent] Y: Post trending topics'') (content_preview queued_item)
   \<and> logs (snd (handleApproval 0 ''approved'' (loaded_panel, failing_store))) = []"
proof -
  have q: "ipc_fault queued_world = (\<lambda>_. None) \<and> logs queued_world = []
           \<and> approvals queued_world = [queued_item]"
    by (simp add: queued_world_def quiet_world_def)
  have f: "ipc_fault failing_store = (\<lambda>_. Some ''database is locked'') \<and> logs failing_store = []"
    by (simp add: failing_store_def quiet_world_def)
  have a: "find (\<lambda>a. item_id a = 0) (p_approvals loaded_panel) = Some queued_item"
    by (simp add: loaded_panel_def queued_item_def)
  have i: "item_id queued_item = 0 \<and> item_agent_id queued_item = Some ''2''
      \<and> content_preview queued_item = ''[Agent] Y: Post trending topics''"
    by (simp add: queued_item_def)
  have t: "str_includes (toLowerCase ''[Agent] Y: Post trending topics'') ''trending''"
    by (simp add: toLowerCase_def lower_char_def str_includes_def sublist_code)
  show ?thesis
    using resolution_updates_then_logs [where i = 0 and status = "''approved''"
          and p = loaded_panel and w = queued_world]
      resolution_updates_then_logs [where i = 0 and status = "''rejected''"
          and p = loaded_panel and w = queued_world]
      resolution_updates_then_logs [where i = 0 and status = "''approved''"
          and p = loaded_panel and w = failing_store]
    by (simp add: split_beta Let_def q f a i t)
qed

lemma loadData_accepted:
  assumes "\<forall>n. ipc_fault w n = None"
  shows "p_approvals (fst (loadData (p, w))) = approvals w"
  using assms by (simp add: loadData_def gateway_defs)

lemma handleApproval_accepted:
  assumes "\<forall>n. ipc_fault w n = None"
  shows "approvals (snd (handleApproval i st (p, w)))
           = map (\<lambda>a. if item_id a = i then a\<lparr>item_status := st\<rparr> else a) (approvals w)
       \<and> p_approvals (fst (handleApproval i st (p, w)))
           = map (\<lambda>a. if item_id a = i then a\<lparr>item_status := st\<rparr> else a) (approvals w)
       \<and> ipc_fault (snd (handleApproval i st (p, w))) = ipc_fault w"
  using assms
  by (simp add: handleApproval_def detect_string Let_def gateway_defs split_beta loadData_store loadData_accepted
      loadData_def)

lemma button_shown:
  "c \<in> set (ApprovalQueue items) \<longleftrightarrow>
   (\<exists>a \<in> set items. item_status a = ''pending'' \<and> fst c = item_id a
      \<and> (snd c = ''approved'' \<or> snd c = ''rejected''))"
  by (cases c) (auto simp: ApprovalQueue_def card_buttons_def)

lemma resolve_all_accepted:
  assumes "\<forall>n. ipc_fault w n = None" and "p_approvals p = approvals w"
    and "resolve_all cs (p, w) = Some (p', w')"
  shows "distinct (map fst cs)
    \<and> (\<forall>c \<in> set cs. (snd c = ''approved'' \<or> snd c = ''rejected'')
          \<and> (\<exists>a \<in> set (approvals w). item_id a = fst c \<and> item_status a = ''pending''))
    \<and> approvals w' =
         map (\<lambda>a. case map_of cs (item_id a) of None \<Rightarrow> a | Some st \<Rightarrow> a\<lparr>item_status := st\<rparr>)
           (approvals w)
    \<and> p_approvals p' = approvals w'"
  using assms
proof (induction cs arbitrary: p w)
  case Nil
  then show ?case by simp
next
  case (Cons c cs)
  let ?upd = "\<lambda>a. if item_id a = fst c then a\<lparr>item_status := snd c\<rparr> else a"
  obtain p1 w1 where step: "handleApproval (fst c) (snd c) (p, w) = (p1, w1)"
    by (cases "handleApproval (fst c) (snd c) (p, w)") auto
  from Cons.prems(3) have shown: "c \<in> set (ApprovalQueue (p_approvals p))"
    and rest: "resolve_all cs (p1, w1) = Some (p', w')"
    by (auto simp: step split: if_splits)
  from shown Cons.prems(2) obtain a0 where a0: "a0 \<in> set (approvals w)"
    "item_status a0 = ''pending''" "fst c = item_id a0"
    and fin: "snd c = ''approved'' \<or> snd c = ''rejected''"
    by (auto simp: button_shown)
  from handleApproval_accepted [OF Cons.prems(1), of "fst c" "snd c" p] step
  have w1: "approvals w1 = map ?upd (approvals w)"
    and p1: "p_approvals p1 = approvals w1"
    and f1: "\<forall>n. ipc_fault w1 n = None"
    using Cons.prems(1) by simp_all
  note ih = Cons.IH [OF f1 p1 rest]
  have fresh: "fst c \<notin> fst ` set cs"
  proof
    assume "fst c \<in> fst ` set cs"
    then obtain c' where c': "c' \<in> set cs" "fst c' = fst c" by auto
    with ih obtain a where "a \<in> set (approvals w1)" "item_id a = fst c" "item_status a = ''pending''"
      by force
    with w1 fin show False by auto
  qed
  have pend: "\<forall>c' \<in> set cs. \<exists>a \<in> set (approvals w). item_id a = fst c' \<and> item_status a = ''pending''"
  proof
    fix c' assume c': "c' \<in> set cs"
    with ih obtain a where a: "a \<in> set (approvals w1)" "item_id a = fst c'" "item_status a = ''pending''"
      by force
    from c' fresh have "fst c' \<noteq> fst c" by (metis imageI)
    with a w1 show "\<exists>a \<in> set (approvals w). item_id a = fst c' \<and> item_status a = ''pending''"
      by (auto split: if_splits)
  qed
  have comp: "\<And>a. (case map_of cs (item_id (?upd a)) of None \<Rightarrow> ?upd a
                      | Some st \<Rightarrow> (?upd a)\<lparr>item_status := st\<rparr>)
                 = (case map_of (c # cs) (item_id a) of None \<Rightarrow> a
                      | Some st \<Rightarrow> a\<lparr>item_status := st\<rparr>)"
  proof -
    fix a
    have none: "map_of cs (fst c) = None"
      using fresh by (simp add: map_of_eq_None_iff)
    show "(case map_of cs (item_id (?upd a)) of None \<Rightarrow> ?upd a
                      | Some st \<Rightarrow> (?upd a)\<lparr>item_status := st\<rparr>)
                 = (case map_of (c # cs) (item_id a) of None \<Rightarrow> a
                      | Some st \<Rightarrow> a\<lparr>item_status := st\<rparr>)"
      using none by (cases c) (auto split: option.splits)
  qed
  let ?Fcs = "\<lambda>a. case map_of cs (item_id a) of None \<Rightarrow> a | Some st \<Rightarrow> a\<lparr>item_status := st\<rparr>"
  let ?Fccs = "\<lambda>a. case map_of (c # cs) (item_id a) of None \<Rightarrow> a | Some st \<Rightarrow> a\<lparr>item_status := st\<rparr>"
  have e1: "approvals w' = map ?Fcs (approvals w1)"
    using ih by blast
  have e2: "map ?Fcs (map ?upd (approvals w)) = map (\<lambda>a. ?Fcs (?upd a)) (approvals w)"
    by (simp only: map_map comp_def)
  have e3: "(\<lambda>a. ?Fcs (?upd a)) = ?Fccs"
    by (rule ext) (rule comp)
  have final: "approvals w' = map ?Fccs (approvals w)"
    by (simp only: e1 w1 e2 e3)
  have d: "distinct (map fst (c # cs))"
    using ih fresh by simp
  have t: "\<forall>c' \<in> set (c # cs). (snd c' = ''approved'' \<or> snd c' = ''rejected'')
          \<and> (\<exists>a \<in> set (approvals w). item_id a = fst c' \<and> item_status a = ''pending'')"
  proof
    fix c' assume "c' \<in> set (c # cs)"
    then consider "c' = c" | "c' \<in> set cs" by auto
    then show "(snd c' = ''approved'' \<or> snd c' = ''rejected'')
          \<and> (\<exists>a \<in> set (approvals w). item_id a = fst c' \<and> item_status a = ''pending'')"
    proof cases
      case 1
      with a0 fin show ?thesis by auto
    next
      case 2
      with ih pend show ?thesis by blast
    qed
  qed
  have v: "p_approvals p' = approvals w'"
    using ih by blast
  show ?case
    by (intro conjI) (rule d, rule t, rule final, rule v)
qed

lemma stale_step:
  "handleApproval 0 ''approved'' (loaded_panel, flaky_world)
   = (loaded_panel,
      flaky_world\<lparr>approvals := [queued_item\<lparr>item_status := ''approved''\<rparr>],
                  events := [Invoke ''update_approval'', Invoke ''add_log'']\<rparr>)"
  by (simp add: handleApproval_def detect_string Let_def gateway_defs flaky_world_def queued_world_def
      quiet_world_def queued_item_def)

text \<open>
  C4, as stated, fails when a write is rejected: \<open>handleApproval\<close> does not check the
  status of the item, and it reloads the panel only after an accepted log write. Below
  the store holds one pending approval and rejects the second command issued. Approving
  the item stores \<open>approved\<close>, the log write is rejected, and the panel is not reloaded:
  the item is still counted on the badge and still shows its buttons, and pressing
  \<open>Reject\<close> stores \<open>rejected\<close>, a second transition.
\<close>

theorem stale_panel_counterexample:
  "item_status queued_item = ''pending''
   \<and> map item_status (approvals (snd (handleApproval 0 ''approved'' (loaded_panel, flaky_world))))
       = [''approved'']
   \<and> logs (snd (handleApproval 0 ''approved'' (loaded_panel, flaky_world))) = []
   \<and> pendingCount (p_approvals (fst (handleApproval 0 ''approved'' (loaded_panel, flaky_world)))) = 1
   \<and> (0, ''rejected'')
       \<in> set (ApprovalQueue (p_approvals (fst (handleApproval 0 ''approved'' (loaded_panel, flaky_world)))))
   \<and> map item_status (approvals (snd (handleApproval 0 ''rejected''
         (handleApproval 0 ''approved'' (loaded_panel, flaky_world))))) = [''rejected'']"
  by (simp add: stale_step)
     (simp add: handleApproval_def detect_string Let_def gateway_defs loadData_def flaky_world_def queued_world_def
      quiet_world_def queued_item_def loaded_panel_def pendingCount_def ApprovalQueue_def
      card_buttons_def resolved_preview_def resolved_agent_def resolved_item_def)

text \<open>
  C4, amended. An approval is created in status \<open>pending\<close>. The badge counts, and the
  queue offers for resolution, exactly the items that the panel's list shows as
  \<open>pending\<close>. In a run in which every command is accepted and the panel starts from the
  stored list (so that it is reloaded after each resolution), any sequence of
  resolutions made through the queue resolves each item at most once, each time an item
  that was pending, to \<open>approved\<close> or \<open>rejected\<close>; afterwards the stored list is the
  initial one with these statuses, the panel shows it, no resolved item is offered again,
  and the badge counts the items that were pending and have not been resolved.
\<close>

theorem resolved_once_when_reloaded:
  assumes "\<forall>n. ipc_fault w n = None" and "p_approvals p = approvals w"
    and "resolve_all cs (p, w) = Some (p', w')"
  shows "map item_status (approvals (snd (addApproval agentId actionType preview w)))
           = map item_status (approvals w) @ [''pending'']
    \<and> (\<forall>c. c \<in> set (ApprovalQueue items) \<longleftrightarrow>
           (\<exists>a \<in> set items. item_status a = ''pending'' \<and> fst c = item_id a
              \<and> (snd c = ''approved'' \<or> snd c = ''rejected'')))
    \<and> pendingCount items = length (filter (\<lambda>a. item_status a = ''pending'') items)
    \<and> distinct (map fst cs)
    \<and> (\<forall>c \<in> set cs. (snd c = ''approved'' \<or> snd c = ''rejected'')
          \<and> (\<exists>a \<in> set (approvals w). item_id a = fst c \<and> item_status a = ''pending''))
    \<and> approvals w' =
         map (\<lambda>a. case map_of cs (item_id a) of None \<Rightarrow> a | Some st \<Rightarrow> a\<lparr>item_status := st\<rparr>)
           (approvals w)
    \<and> p_approvals p' = approvals w'
    \<and> (\<forall>c \<in> set cs. \<forall>st. (fst c, st) \<notin> set (ApprovalQueue (p_approvals p')))
    \<and> pendingCount (p_approvals p')
        = length (filter (\<lambda>a. item_status a = ''pending'' \<and> item_id a \<notin> fst ` set cs) (approvals w))"
proof -
  let ?F = "\<lambda>a. case map_of cs (item_id a) of None \<Rightarrow> a | Some st \<Rightarrow> a\<lparr>item_status := st\<rparr>"
  note r = resolve_all_accepted [OF assms]
  have add: "map item_status (approvals (snd (addApproval agentId actionType preview w)))
           = map item_status (approvals w) @ [''pending'']"
    using assms(1) by (simp add: gateway_defs)
  have b: "\<forall>c. c \<in> set (ApprovalQueue items) \<longleftrightarrow>
           (\<exists>a \<in> set items. item_status a = ''pending'' \<and> fst c = item_id a
              \<and> (snd c = ''approved'' \<or> snd c = ''rejected''))"
    by (rule allI) (rule button_shown)
  have pc: "pendingCount items = length (filter (\<lambda>a. item_status a = ''pending'') items)"
    by (simp add: pendingCount_def)
  have d: "distinct (map fst cs)" using r by blast
  have t: "\<forall>c \<in> set cs. (snd c = ''approved'' \<or> snd c = ''rejected'')
          \<and> (\<exists>a \<in> set (approvals w). item_id a = fst c \<and> item_status a = ''pending'')"
    using r by blast
  have f: "approvals w' = map ?F (approvals w)" using r by blast
  have v: "p_approvals p' = approvals w'" using r by blast
  have idF: "\<And>a. item_id (?F a) = item_id a"
    by (simp split: option.splits)
  have stF: "\<And>a. item_status (?F a) = ''pending'' \<longleftrightarrow>
                 item_status a = ''pending'' \<and> item_id a \<notin> fst ` set cs"
  proof -
    fix a
    show "item_status (?F a) = ''pending'' \<longleftrightarrow>
                 item_status a = ''pending'' \<and> item_id a \<notin> fst ` set cs"
    proof (cases "map_of cs (item_id a)")
      case None
      then have "item_id a \<notin> fst ` set cs" by (simp add: map_of_eq_None_iff)
      with None show ?thesis by simp
    next
      case (Some st)
      then have m: "(item_id a, st) \<in> set cs" by (rule map_of_SomeD)
      with t have "st = ''approved'' \<or> st = ''rejected''" by force
      moreover from m have "item_id a \<in> fst ` set cs" by force
      ultimately show ?thesis using Some by auto
    qed
  qed
  have n: "\<forall>c \<in> set cs. \<forall>st. (fst c, st) \<notin> set (ApprovalQueue (p_approvals p'))"
  proof (intro ballI allI notI)
    fix c st assume c: "c \<in> set cs" and "(fst c, st) \<in> set (ApprovalQueue (p_approvals p'))"
    then obtain a' where "a' \<in> set (approvals w')" "item_status a' = ''pending''" "fst c = item_id a'"
      using v by (auto simp: button_shown)
    then obtain a where "a \<in> set (approvals w)" "item_status (?F a) = ''pending''" "fst c = item_id (?F a)"
      using f by auto
    with stF idF c show False by (metis imageI)
  qed
  have "filter (\<lambda>a. item_status a = ''pending'') (map ?F (approvals w))
        = map ?F (filter (\<lambda>a. item_status a = ''pending'' \<and> item_id a \<notin> fst ` set cs) (approvals w))"
    by (simp only: filter_map comp_def stF)
  then have k: "pendingCount (p_approvals p')
        = length (filter (\<lambda>a. item_status a = ''pending'' \<and> item_id a \<notin> fst ` set cs) (approvals w))"
    by (simp only: pendingCount_def v f length_map)
  show ?thesis
    by (intro conjI) (rule add, rule b, rule pc, rule d, rule t, rule f, rule v, rule n, rule k)
qed

theorem resolved_once_when_reloaded_witness:
  "(\<forall>n. ipc_fault queued_world n = None)
   \<and> p_approvals loaded_panel = approvals queued_world
   \<and> resolve_all [(0, ''approved'')] (loaded_panel, queued_world)
       = Some (handleApproval 0 ''approved'' (loaded_panel, queued_world))
   \<and> map item_status (approvals (snd (handleApproval 0 ''approved'' (loaded_panel, queued_world))))
       = [''approved'']
   \<and> pendingCount (p_approvals (fst (handleApproval 0 ''approved'' (loaded_panel, queued_world)))) = 0"
proof -
  have h1: "\<forall>n. ipc_fault queued_world n = None"
    by (simp add: queued_world_def quiet_world_def)
  have h2: "p_approvals loaded_panel = approvals queued_world"
    by (simp add: loaded_panel_def queued_world_def)
  have h3: "resolve_all [(0, ''approved'')] (loaded_panel, queued_world)
       = Some (fst (handleApproval 0 ''approved'' (loaded_panel, queued_world)),
               snd (handleApproval 0 ''approved'' (loaded_panel, queued_world)))"
    by (simp add: loaded_panel_def ApprovalQueue_def card_buttons_def queued_item_def)
  have q: "approvals queued_world = [queued_item] \<and> item_id queued_item = 0
           \<and> item_status queued_item = ''pending''"
    by (simp add: queued_world_def queued_item_def)
  show ?thesis
    using resolved_once_when_reloaded [OF h1 h2 h3] h1 h2 h3 q
    by (simp add: pendingCount_def)
qed

end
